theory Spec2Isabelle
  imports Complex_Main "HOL-Library.Word"
begin

unbundle bit_operations_syntax

section \<open>Strings and the library helpers the source calls\<close>

text \<open>
  \<^verbatim>\<open>ustring\<close> and \<^verbatim>\<open>string_view\<close> are byte strings. \<^verbatim>\<open>ustring::hash()\<close> is declared
  outside \<^verbatim>\<open>color_ocio.cpp\<close>; every definition that needs it takes it as the parameter
  \<open>uhash\<close>. \<^verbatim>\<open>size_t\<close> is a 64-bit unsigned integer, so the sums below wrap.
\<close>

type_synonym ustring = string
type_synonym size_t = "64 word"

text \<open>
  Modelled from the spec: \<^verbatim>\<open>Strutil::iequals\<close> (declared in strutil.h) is the
  case-insensitive exact string match; the letters A to Z are compared after ASCII
  lower-casing, every other byte as it is.
\<close>

definition to_lower_char :: "char \<Rightarrow> char" where
  "to_lower_char c =
     (case map_of (zip ''ABCDEFGHIJKLMNOPQRSTUVWXYZ'' ''abcdefghijklmnopqrstuvwxyz'') c of
        Some l \<Rightarrow> l
      | None \<Rightarrow> c)"

definition iequals :: "string \<Rightarrow> string \<Rightarrow> bool" where
  "iequals a b = (map to_lower_char a = map to_lower_char b)"

section \<open>ColorProcCacheKey\<close>

text \<open>
  The key class of the processor cache. The constructor's initialiser list names
  \<^verbatim>\<open>inputColorSpace, outputColorSpace, context_key, context_value, looks, file,
  namedtransform, inverse\<close>; the members \<^verbatim>\<open>display\<close> and \<^verbatim>\<open>view\<close> are not in
  it and stay default-constructed (empty), while the constructor body hashes the
  \<^emph>\<open>parameters\<close> \<^verbatim>\<open>display\<close> and \<^verbatim>\<open>view\<close>. \<^verbatim>\<open>operator==\<close> compares the tuple of all
  eleven members, which is equality of the record.
\<close>

record ColorProcCacheKey =
  inputColorSpace :: ustring
  outputColorSpace :: ustring
  context_key :: ustring
  context_value :: ustring
  looks :: ustring
  display :: ustring
  view :: ustring
  file_path :: ustring  \<comment> \<open>the member \<^verbatim>\<open>file\<close>; \<open>file\<close> is reserved in theories\<close>
  namedtransform :: ustring
  inverse :: bool
  hash :: size_t

definition mk_ColorProcCacheKey ::
  "(ustring \<Rightarrow> size_t) \<Rightarrow> ustring \<Rightarrow> ustring \<Rightarrow> ustring \<Rightarrow> ustring \<Rightarrow> ustring \<Rightarrow>
   ustring \<Rightarrow> ustring \<Rightarrow> ustring \<Rightarrow> ustring \<Rightarrow> bool \<Rightarrow> ColorProcCacheKey" where
  "mk_ColorProcCacheKey uhash in' out key val looks' display' view' file' namedtransform' inverse' =
     \<lparr> inputColorSpace = in', outputColorSpace = out, context_key = key,
       context_value = val, looks = looks', display = [], view = [],
       file_path = file', namedtransform = namedtransform', inverse = inverse',
       hash = uhash in' + 14033 * uhash out + 823 * uhash key + 28411 * uhash val
              + 1741 * (uhash looks' + uhash display' + uhash view' + uhash file'
                        + uhash namedtransform')
              + (if inverse' then 6421 else 0) \<rparr>"

text \<open>
  The local \<^verbatim>\<open>prockey\<close> of each transform builder, with the arguments in the positions
  the source passes them. \<^verbatim>\<open>createFileTransform\<close> passes an empty string in the
  position commented \<^verbatim>\<open>/*file*/\<close> and its \<^verbatim>\<open>name\<close> in the next one, which is the
  \<^verbatim>\<open>namedtransform\<close> parameter.
\<close>

definition createColorProcessor_prockey ::
  "(ustring \<Rightarrow> size_t) \<Rightarrow> ustring \<Rightarrow> ustring \<Rightarrow> ustring \<Rightarrow> ustring \<Rightarrow> ColorProcCacheKey" where
  "createColorProcessor_prockey uhash inputCS outputCS ckey cvalue =
     mk_ColorProcCacheKey uhash inputCS outputCS ckey cvalue [] [] [] [] [] False"

definition createLookTransform_prockey ::
  "(ustring \<Rightarrow> size_t) \<Rightarrow> ustring \<Rightarrow> ustring \<Rightarrow> ustring \<Rightarrow> bool \<Rightarrow> ustring \<Rightarrow> ustring \<Rightarrow>
   ColorProcCacheKey" where
  "createLookTransform_prockey uhash looks' inputCS outputCS inverse' ckey cvalue =
     mk_ColorProcCacheKey uhash inputCS outputCS ckey cvalue looks' [] [] [] [] inverse'"

definition createFileTransform_prockey ::
  "(ustring \<Rightarrow> size_t) \<Rightarrow> ustring \<Rightarrow> bool \<Rightarrow> ColorProcCacheKey" where
  "createFileTransform_prockey uhash name inverse' =
     mk_ColorProcCacheKey uhash [] [] [] [] [] [] [] [] name inverse'"

definition createNamedTransform_prockey ::
  "(ustring \<Rightarrow> size_t) \<Rightarrow> ustring \<Rightarrow> bool \<Rightarrow> ustring \<Rightarrow> ustring \<Rightarrow> ColorProcCacheKey" where
  "createNamedTransform_prockey uhash name inverse' ckey cvalue =
     mk_ColorProcCacheKey uhash [] [] ckey cvalue [] [] [] [] name inverse'"

section \<open>The external engine, as the source sees it\<close>

text \<open>
  OpenColorIO is an opaque service. A \<^verbatim>\<open>ConstProcessorRcPtr\<close>, a
  \<^verbatim>\<open>ConstColorSpaceRcPtr\<close> and a \<^verbatim>\<open>ConstConfigRcPtr\<close> may be null (\<open>None\<close>); a call
  into the engine returns or throws. Dereferencing a null pointer and letting an
  exception leave a function are the two ways a function of this file fails.
\<close>

datatype fault = NullPointerDereference | UncaughtException

datatype 'a engine_result = Returned 'a | OCIO_Exception string | Unknown_Exception

record ColorSpace =
  getName :: string
  isData :: bool
  getInteropID :: string
  getAliases :: "string list"

record Processor =
  proc_desc :: string
  proc_isNoOp :: bool

datatype Context = CurrentContext | EditableCopy "(string \<times> string) list"

record Config =
  getColorSpaceNameByIndex :: "string list"
  getColorSpace :: "string \<Rightarrow> ColorSpace option"
  getProcessor :: "Context \<Rightarrow> string \<Rightarrow> string \<Rightarrow> Processor option engine_result"

text \<open>
  The process-wide statics read from the environment, the two compile-time switches
  (whether the file is compiled against OpenColorIO 2.5 or newer, \<^verbatim>\<open>OCIO_VERSION_HEX\<close>,
  and whether \<^verbatim>\<open>OIIO_SITE_spi\<close> is defined), the static entry points of the engine, and
  the two helpers declared outside the file (\<^verbatim>\<open>ustring::hash\<close>,
  \<^verbatim>\<open>Strutil::splits(_, ",")\<close>) are the fields of \<open>Env\<close>.
\<close>

record Env =
  disable_ocio :: bool
  disable_builtin_configs :: bool
  ocio_2_5_or_newer :: bool
  site_spi :: bool
  uhash :: "ustring \<Rightarrow> size_t"
  splits :: "string \<Rightarrow> string list"
  IdentifyBuiltinColorSpace ::
    "Config \<Rightarrow> Config option \<Rightarrow> string \<Rightarrow> string option engine_result"
  GetProcessorFromConfigs ::
    "Context \<Rightarrow> Config \<Rightarrow> string \<Rightarrow> Context \<Rightarrow> Config \<Rightarrow> string
     \<Rightarrow> Processor option engine_result"

section \<open>CSInfo and ColorConfig::Impl\<close>

text \<open>The enumerators of \<^verbatim>\<open>CSInfo::Flags\<close>.\<close>

definition is_linear_response :: int where "is_linear_response = 1"
definition is_scene_linear :: int where "is_scene_linear = 2"
definition is_srgb :: int where "is_srgb = 4"
definition is_lin_srgb :: int where "is_lin_srgb = 8"
definition is_ACEScg :: int where "is_ACEScg = 16"
definition is_Rec709 :: int where "is_Rec709 = 32"
definition is_known :: int where "is_known = is_srgb OR is_lin_srgb OR is_ACEScg OR is_Rec709"

record CSInfo =
  name :: string
  index :: int
  m_flags :: int
  examined :: bool
  canonical :: string

definition mk_CSInfo :: "string \<Rightarrow> int \<Rightarrow> int \<Rightarrow> CSInfo" where
  "mk_CSInfo name' index' flags' =
     \<lparr> name = name', index = index', m_flags = flags', examined = False, canonical = [] \<rparr>"

text \<open>
  A \<^verbatim>\<open>ColorProcessorHandle\<close> is a shared pointer to a \<^verbatim>\<open>ColorProcessor\<close>; the empty
  handle is \<open>None\<close>. Every \<^verbatim>\<open>new ColorProcessor_OCIO(p)\<close> makes a distinct object:
  \<open>obj_addr\<close> is its address, taken from the counter \<open>heap_next\<close> of the state, so that
  two handles are the same object exactly when they are equal.
\<close>

record ColorProcessor_OCIO =
  obj_addr :: nat
  m_p :: Processor

type_synonym ColorProcessorHandle = "ColorProcessor_OCIO option"

text \<open>
  The members of \<^verbatim>\<open>ColorConfig::Impl\<close> (\<^verbatim>\<open>config_\<close>, \<^verbatim>\<open>builtinconfig_\<close> and
  \<^verbatim>\<open>interopconfig_\<close> without the trailing underscore). \<open>heap_next\<close> is the allocator
  above; \<open>engine_compiles\<close> counts the calls that ask the engine to compile a processor,
  the instrumentation a test double of the engine would carry.
\<close>

record Impl =
  config :: "Config option"
  builtinconfig :: "Config option"
  interopconfig :: "Config option"
  colorspaces :: "CSInfo list"
  scene_linear_alias :: string
  lin_srgb_alias :: string
  srgb_alias :: string
  ACEScg_alias :: string
  Rec709_alias :: string
  m_error :: string
  colorprocmap :: "ColorProcCacheKey \<rightharpoonup> ColorProcessorHandle"
  colorprocs_requested :: int
  colorprocs_created :: int
  m_config_is_built_in :: bool
  heap_next :: nat
  engine_compiles :: nat

definition new_Impl :: Impl where
  "new_Impl =
     \<lparr> config = None, builtinconfig = None, interopconfig = None, colorspaces = [],
       scene_linear_alias = [], lin_srgb_alias = [], srgb_alias = [], ACEScg_alias = [],
       Rec709_alias = [], m_error = [], colorprocmap = Map.empty,
       colorprocs_requested = 0, colorprocs_created = 0, m_config_is_built_in = False,
       heap_next = 0, engine_compiles = 0 \<rparr>"

definition add :: "Impl \<Rightarrow> string \<Rightarrow> int \<Rightarrow> int \<Rightarrow> Impl" where
  "add s name' index' flags' = s\<lparr>colorspaces := colorspaces s @ [mk_CSInfo name' index' flags']\<rparr>"

text \<open>\<^verbatim>\<open>Impl::find\<close>: the first entry with exactly that name, or null.\<close>

definition find_cs :: "Impl \<Rightarrow> string \<Rightarrow> CSInfo option" where
  "find_cs s name' = List.find (\<lambda>cs. name cs = name') (colorspaces s)"

definition getNumColorSpaces :: "Impl \<Rightarrow> int" where
  "getNumColorSpaces s = int (length (colorspaces s))"

definition error :: "Impl \<Rightarrow> string \<Rightarrow> Impl" where
  "error s msg = s\<lparr>m_error := msg\<rparr>"

definition clear_error :: "Impl \<Rightarrow> Impl" where
  "clear_error s = s\<lparr>m_error := []\<rparr>"

definition haserror :: "Impl \<Rightarrow> bool" where
  "haserror s = (m_error s \<noteq> [])"

definition geterror :: "Impl \<Rightarrow> bool \<Rightarrow> string \<times> Impl" where
  "geterror s clear = (if clear then (m_error s, s\<lparr>m_error := []\<rparr>) else (m_error s, s))"

section \<open>The processor cache\<close>

definition findproc :: "Impl \<Rightarrow> ColorProcCacheKey \<Rightarrow> ColorProcessorHandle \<times> Impl" where
  "findproc s key =
     (let s' = s\<lparr>colorprocs_requested := colorprocs_requested s + 1\<rparr>
      in case colorprocmap s' key of None \<Rightarrow> (None, s') | Some found \<Rightarrow> (found, s'))"

definition addproc ::
  "Impl \<Rightarrow> ColorProcCacheKey \<Rightarrow> ColorProcessorHandle \<Rightarrow> ColorProcessorHandle \<times> Impl" where
  "addproc s key handle =
     (if handle = None then (handle, s)
      else case colorprocmap s key of
             None \<Rightarrow> (handle, s\<lparr>colorprocmap := (colorprocmap s)(key \<mapsto> handle),
                                 colorprocs_created := colorprocs_created s + 1\<rparr>)
           | Some found \<Rightarrow> (found, s))"

definition new_ColorProcessor_OCIO :: "Impl \<Rightarrow> Processor \<Rightarrow> ColorProcessorHandle \<times> Impl" where
  "new_ColorProcessor_OCIO s p =
     (Some \<lparr> obj_addr = heap_next s, m_p = p \<rparr>, s\<lparr>heap_next := heap_next s + 1\<rparr>)"

section \<open>Classification by name and the inventory\<close>

definition setflag :: "CSInfo \<Rightarrow> int \<Rightarrow> CSInfo" where
  "setflag cs flagval = cs\<lparr>m_flags := m_flags cs OR flagval\<rparr>"

text \<open>
  \<^verbatim>\<open>setflag(flagval, alias)\<close> also sets the alias, passed by reference, to the name of
  the color space when the alias is still empty; the new alias is the second result.
\<close>

definition setflag_alias :: "CSInfo \<Rightarrow> int \<Rightarrow> string \<Rightarrow> CSInfo \<times> string" where
  "setflag_alias cs flagval alias =
     (cs\<lparr>m_flags := m_flags cs OR flagval\<rparr>, if alias = [] then name cs else alias)"

definition set_canonical :: "CSInfo \<Rightarrow> CSInfo" where
  "set_canonical cs =
     (if m_flags cs AND is_srgb \<noteq> 0 then cs\<lparr>canonical := ''srgb_rec709_scene''\<rparr>
      else if m_flags cs AND is_lin_srgb \<noteq> 0 then cs\<lparr>canonical := ''lin_rec709_scene''\<rparr>
      else if m_flags cs AND is_ACEScg \<noteq> 0 then cs\<lparr>canonical := ''lin_ap1_scene''\<rparr>
      else if m_flags cs AND is_Rec709 \<noteq> 0 then cs\<lparr>canonical := ''Rec709''\<rparr>
      else cs)"

text \<open>\<^verbatim>\<open>Strutil::starts_with\<close>, declared in strutil.h: the second string is a prefix of
  the first.\<close>

definition starts_with :: "string \<Rightarrow> string \<Rightarrow> bool" where
  "starts_with a b = (take (length b) a = b)"

text \<open>
  \<^verbatim>\<open>classify_by_name\<close>, with the three branches that are compiled under
  \<^verbatim>\<open>OIIO_SITE_spi\<close> only. It changes the color space it is given and the aliases of
  the state.
\<close>

definition classify_by_name :: "Env \<Rightarrow> Impl \<Rightarrow> CSInfo \<Rightarrow> CSInfo \<times> Impl" where
  "classify_by_name env s cs =
     (let (cs1, s1) =
        (if iequals (name cs) ''srgb_rec709_scene'' \<or> iequals (name cs) ''srgb_tx''
            \<or> iequals (name cs) ''srgb_texture'' \<or> iequals (name cs) ''srgb texture''
            \<or> iequals (name cs) ''srgb_rec709_scene'' \<or> iequals (name cs) ''sRGB - Texture''
            \<or> iequals (name cs) ''sRGB''
         then (let (c, a) = setflag_alias cs is_srgb (srgb_alias s)
               in (c, s\<lparr>srgb_alias := a\<rparr>))
         else if iequals (name cs) ''lin_rec709_scene'' \<or> iequals (name cs) ''lin_rec709''
            \<or> iequals (name cs) ''Linear Rec.709 (sRGB)'' \<or> iequals (name cs) ''lin_srgb''
            \<or> iequals (name cs) ''linear''
         then (let (c, a) = setflag_alias cs (is_lin_srgb OR is_linear_response)
                              (lin_srgb_alias s)
               in (c, s\<lparr>lin_srgb_alias := a\<rparr>))
         else if iequals (name cs) ''ACEScg'' \<or> iequals (name cs) ''lin_ap1_scene''
            \<or> iequals (name cs) ''lin_ap1''
         then (let (c, a) = setflag_alias cs (is_ACEScg OR is_linear_response)
                              (ACEScg_alias s)
               in (c, s\<lparr>ACEScg_alias := a\<rparr>))
         else if iequals (name cs) ''Rec709''
         then (let (c, a) = setflag_alias cs is_Rec709 (Rec709_alias s)
               in (c, s\<lparr>Rec709_alias := a\<rparr>))
         else if site_spi env \<and> starts_with (name cs) ''cgln''
         then (let (c, a) = setflag_alias cs (is_ACEScg OR is_linear_response)
                              (ACEScg_alias s)
               in (c, s\<lparr>ACEScg_alias := a\<rparr>))
         else if site_spi env
                 \<and> (name cs = ''srgbf'' \<or> name cs = ''srgbh'' \<or> name cs = ''srgb16''
                      \<or> name cs = ''srgb8'')
         then (let (c, a) = setflag_alias cs is_srgb (srgb_alias s)
               in (c, s\<lparr>srgb_alias := a\<rparr>))
         else if site_spi env
                 \<and> (name cs = ''srgblnf'' \<or> name cs = ''srgblnh'' \<or> name cs = ''srgbln16''
                      \<or> name cs = ''srgbln8'')
         then (let (c, a) = setflag_alias cs is_lin_srgb (lin_srgb_alias s)
               in (c, s\<lparr>lin_srgb_alias := a\<rparr>))
         else (cs, s));
        cs2 = set_canonical cs1
      in (if canonical cs2 \<noteq> [] then cs2\<lparr>examined := True\<rparr> else cs2, s1))"

text \<open>\<^verbatim>\<open>for (auto&& cs : colorspaces) classify_by_name(cs);\<close>\<close>

fun classify_each :: "Env \<Rightarrow> Impl \<Rightarrow> CSInfo list \<Rightarrow> CSInfo list \<times> Impl" where
  "classify_each env s [] = ([], s)"
| "classify_each env s (cs # rest) =
     (let (cs', s1) = classify_by_name env s cs;
          (rest', s2) = classify_each env s1 rest
      in (cs' # rest', s2))"

definition classify_all :: "Env \<Rightarrow> Impl \<Rightarrow> Impl" where
  "classify_all env s =
     (let (css, s1) = classify_each env s (colorspaces s) in s1\<lparr>colorspaces := css\<rparr>)"

text \<open>
  The first loop of \<^verbatim>\<open>inventory\<close>: \<^verbatim>\<open>nonraw |= !cs->isData()\<close> for every color
  space of the config, where \<^verbatim>\<open>cs\<close> is null when the engine does not return the space.
\<close>

fun any_nonraw :: "Config \<Rightarrow> string list \<Rightarrow> bool \<Rightarrow> fault + bool" where
  "any_nonraw cfg [] nonraw = Inr nonraw"
| "any_nonraw cfg (csname # rest) nonraw =
     (case getColorSpace cfg csname of
        None \<Rightarrow> Inl NullPointerDereference
      | Some cs \<Rightarrow> any_nonraw cfg rest (nonraw \<or> \<not> isData cs))"

fun add_each :: "Impl \<Rightarrow> string list \<Rightarrow> int \<Rightarrow> Impl" where
  "add_each s [] i = s"
| "add_each s (csname # rest) i = add_each (add s csname i 0) rest (i + 1)"

definition linflags :: int where
  "linflags = is_linear_response OR is_scene_linear OR is_lin_srgb"

definition inventory_fallback :: "Env \<Rightarrow> Impl \<Rightarrow> Impl" where
  "inventory_fallback env s =
     (let s = s\<lparr>config := None\<rparr>;
          s = add s ''linear'' 0 linflags;
          s = add s ''scene_linear'' 0 linflags;
          s = add s ''default'' 0 linflags;
          s = add s ''rgb'' 0 linflags;
          s = add s ''RGB'' 0 linflags;
          s = add s ''lin_rec709_scene'' 0 linflags;
          s = add s ''lin_srgb'' 0 linflags;
          s = add s ''lin_rec709'' 0 linflags;
          s = add s ''srgb_rec709_scene'' 1 is_srgb;
          s = add s ''sRGB'' 1 is_srgb;
          s = add s ''Rec709'' 2 is_Rec709
      in classify_all env s)"

definition inventory :: "Env \<Rightarrow> Impl \<Rightarrow> fault + Impl" where
  "inventory env s =
     (case config s of
        None \<Rightarrow> Inr (inventory_fallback env s)
      | Some cfg \<Rightarrow>
          if disable_ocio env then Inr (inventory_fallback env s)
          else (case any_nonraw cfg (getColorSpaceNameByIndex cfg) False of
                  Inl f \<Rightarrow> Inl f
                | Inr nonraw \<Rightarrow>
                    if nonraw then
                      (let s1 = add_each s (getColorSpaceNameByIndex cfg) 0;
                           s2 = classify_all env s1
                       in case getColorSpace cfg ''scene_linear'' of
                            None \<Rightarrow> Inr s2
                          | Some lin \<Rightarrow> Inr (s2\<lparr>scene_linear_alias := getName lin\<rparr>))
                    else Inr (inventory_fallback env s)))"

text \<open>\<^verbatim>\<open>ColorConfig::Impl::IdentifyBuiltinColorSpace\<close>: both \<^verbatim>\<open>catch (...)\<close> swallow.\<close>

definition Impl_IdentifyBuiltinColorSpace :: "Env \<Rightarrow> Impl \<Rightarrow> string \<Rightarrow> string option" where
  "Impl_IdentifyBuiltinColorSpace env s n =
     (case config s of
        None \<Rightarrow> None
      | Some cfg \<Rightarrow>
          if disable_builtin_configs env then None
          else (case IdentifyBuiltinColorSpace env cfg (interopconfig s) n of
                  Returned r \<Rightarrow> r
                | _ \<Rightarrow> (case IdentifyBuiltinColorSpace env cfg (builtinconfig s) n of
                          Returned r \<Rightarrow> r
                        | _ \<Rightarrow> None)))"

text \<open>
  \<^verbatim>\<open>if (CSInfo* cs = find(n)) cs->setflag(flagval, alias);\<close> on the vector: the first
  entry named \<open>n\<close> is changed in place.
\<close>

fun setflag_found :: "CSInfo list \<Rightarrow> string \<Rightarrow> int \<Rightarrow> string \<Rightarrow> CSInfo list \<times> string" where
  "setflag_found [] n flagval alias = ([], alias)"
| "setflag_found (cs # rest) n flagval alias =
     (if name cs = n then (let (c, a) = setflag_alias cs flagval alias in (c # rest, a))
      else (let (rest', a) = setflag_found rest n flagval alias in (cs # rest', a)))"

definition identify_builtin_equivalents :: "Env \<Rightarrow> Impl \<Rightarrow> Impl" where
  "identify_builtin_equivalents env s =
     (if disable_builtin_configs env then s
      else
        (let s1 = (case Impl_IdentifyBuiltinColorSpace env s ''srgb_tx'' of
                     None \<Rightarrow> s
                   | Some n \<Rightarrow>
                       (let (css, a) = setflag_found (colorspaces s) n is_srgb (srgb_alias s)
                        in s\<lparr>colorspaces := css, srgb_alias := a\<rparr>));
             s2 = (case Impl_IdentifyBuiltinColorSpace env s1 ''lin_srgb'' of
                     None \<Rightarrow> s1
                   | Some n \<Rightarrow>
                       (let (css, a) = setflag_found (colorspaces s1) n
                                         (is_lin_srgb OR is_linear_response) (lin_srgb_alias s1)
                        in s1\<lparr>colorspaces := css, lin_srgb_alias := a\<rparr>));
             s3 = (case Impl_IdentifyBuiltinColorSpace env s2 ''ACEScg'' of
                     None \<Rightarrow> s2
                   | Some n \<Rightarrow>
                       (let (css, a) = setflag_found (colorspaces s2) n
                                         (is_ACEScg OR is_linear_response) (ACEScg_alias s2)
                        in s2\<lparr>colorspaces := css, ACEScg_alias := a\<rparr>))
         in s3))"

text \<open>
  \<^verbatim>\<open>ColorConfig::Impl::init\<close>, on a fresh \<^verbatim>\<open>Impl\<close> (\<^verbatim>\<open>reset\<close> makes one). Its first part
  asks the engine for the built-in, the interop identities and the requested
  configuration and records a message when that fails; that part is the engine's, and
  is given here by its outcome: the three documents, whether the configuration is a
  built-in one, and the message. The rest is \<^verbatim>\<open>ok = config_.get() != nullptr;
  inventory(); identify_builtin_equivalents(); return ok;\<close>
\<close>

definition loaded_Impl ::
  "Config option \<Rightarrow> Config option \<Rightarrow> Config option \<Rightarrow> bool \<Rightarrow> string \<Rightarrow> Impl" where
  "loaded_Impl loaded_config loaded_builtin loaded_interop built_in load_error =
     new_Impl\<lparr>config := loaded_config, builtinconfig := loaded_builtin,
              interopconfig := loaded_interop, m_config_is_built_in := built_in,
              m_error := load_error\<rparr>"

definition init ::
  "Env \<Rightarrow> Config option \<Rightarrow> Config option \<Rightarrow> Config option \<Rightarrow> bool \<Rightarrow> string
   \<Rightarrow> fault + (bool \<times> Impl)" where
  "init env loaded_config loaded_builtin loaded_interop built_in load_error =
     (let s = loaded_Impl loaded_config loaded_builtin loaded_interop built_in load_error;
          ok = (config s \<noteq> None)
      in case inventory env s of
           Inl f \<Rightarrow> Inl f
         | Inr s1 \<Rightarrow> Inr (ok, identify_builtin_equivalents env s1))"

section \<open>ColorConfig::resolve and ColorConfig::equivalent\<close>

text \<open>
  \<^verbatim>\<open>Impl::resolve\<close> starts with \<^verbatim>\<open>config_->getColorSpace(namestr)\<close> and goes on with
  \<^verbatim>\<open>interopconfig_->getColorSpace(namestr)\<close>, both without a test of the pointer. Its
  \<^verbatim>\<open>try\<close> catches \<^verbatim>\<open>OCIO::Exception\<close> only.
\<close>

definition resolve_informal :: "Impl \<Rightarrow> string \<Rightarrow> string" where
  "resolve_informal s n =
     (if (iequals n ''sRGB'' \<or> iequals n ''srgb_rec709_scene'') \<and> srgb_alias s \<noteq> []
      then srgb_alias s
      else if (iequals n ''lin_srgb'' \<or> iequals n ''lin_rec709''
               \<or> iequals n ''lin_rec709_scene'' \<or> iequals n ''linear'')
              \<and> lin_srgb_alias s \<noteq> []
      then lin_srgb_alias s
      else if (iequals n ''ACEScg'' \<or> iequals n ''lin_ap1_scene'') \<and> ACEScg_alias s \<noteq> []
      then ACEScg_alias s
      else if iequals n ''scene_linear'' \<and> scene_linear_alias s \<noteq> []
      then scene_linear_alias s
      else if iequals n ''Rec709'' \<and> Rec709_alias s \<noteq> []
      then Rec709_alias s
      else n)"

definition resolve :: "Env \<Rightarrow> Impl \<Rightarrow> string \<Rightarrow> fault + string" where
  "resolve env s n =
     (case config s of
        None \<Rightarrow> Inl NullPointerDereference
      | Some cfg \<Rightarrow>
          (case getColorSpace cfg n of
             Some cs \<Rightarrow> Inr (getName cs)
           | None \<Rightarrow>
               (case interopconfig s of
                  None \<Rightarrow> Inl NullPointerDereference
                | Some icfg \<Rightarrow>
                    (case getColorSpace icfg n of
                       None \<Rightarrow> Inr (resolve_informal s n)
                     | Some builtin_cs \<Rightarrow>
                         (case IdentifyBuiltinColorSpace env cfg (Some icfg)
                                 (getName builtin_cs) of
                            Returned (Some equivalent_cs) \<Rightarrow>
                              if equivalent_cs \<noteq> [] then Inr equivalent_cs
                              else Inr (resolve_informal s n)
                          | Returned None \<Rightarrow> Inr (resolve_informal s n)
                          | OCIO_Exception e \<Rightarrow> Inr (resolve_informal s n)
                          | Unknown_Exception \<Rightarrow> Inl UncaughtException)))))"

definition equivalent :: "Env \<Rightarrow> Impl \<Rightarrow> string \<Rightarrow> string \<Rightarrow> fault + bool" where
  "equivalent env s color_space1 color_space2 =
     (if color_space1 = [] \<or> color_space2 = [] then Inr False
      else if iequals color_space1 color_space2 then Inr True
      else
        case resolve env s color_space1 of
          Inl f \<Rightarrow> Inl f
        | Inr r1 \<Rightarrow>
       (case resolve env s color_space2 of
          Inl f \<Rightarrow> Inl f
        | Inr r2 \<Rightarrow>
            if r1 = [] \<or> r2 = [] then Inr False
            else if iequals r1 r2 then Inr True
            else
              (let mask = is_srgb OR is_lin_srgb OR is_ACEScg OR is_Rec709
               in case find_cs s r1 of
                    None \<Rightarrow> Inr False
                  | Some csi1 \<Rightarrow>
                 (case find_cs s r2 of
                    None \<Rightarrow> Inr False
                  | Some csi2 \<Rightarrow>
                      (let flags1 = m_flags csi1 AND mask;
                           flags2 = m_flags csi2 AND mask
                       in if (flags1 OR flags2) \<noteq> 0 \<and> m_flags csi1 = m_flags csi2
                          then Inr True
                          else if (canonical csi1 \<noteq> [] \<and> canonical csi2 \<noteq> [])
                                  \<and> iequals (canonical csi1) (canonical csi2)
                          then Inr True
                          else Inr False)))))"

section \<open>ColorConfig::createColorProcessor\<close>

text \<open>
  The context: the string variables are installed into a copy of the current context
  only when both lists are non-empty and of equal length.
\<close>

definition make_context :: "Env \<Rightarrow> ustring \<Rightarrow> ustring \<Rightarrow> Context" where
  "make_context env ckey cvalue =
     (let keys = splits env ckey; values = splits env cvalue
      in if keys \<noteq> [] \<and> values \<noteq> [] \<and> length keys = length values
         then EditableCopy (zip keys values) else CurrentContext)"

text \<open>\<^verbatim>\<open>getImpl()->interopconfig_->getColorSpace(name)\<close>, as a truth value.\<close>

definition interop_getColorSpace :: "Impl \<Rightarrow> string \<Rightarrow> fault + bool" where
  "interop_getColorSpace s n =
     (case interopconfig s of
        None \<Rightarrow> Inl NullPointerDereference
      | Some ic \<Rightarrow> Inr (getColorSpace ic n \<noteq> None))"

text \<open>
  Which engine call the request becomes: a cross-config processor when an endpoint is
  known only to the interop identities config, the live config's own processor
  otherwise. (\<^verbatim>\<open>builtin_ids\<close> is computed in the source and not used.)
\<close>

definition engine_request ::
  "Env \<Rightarrow> Impl \<Rightarrow> Config \<Rightarrow> ustring \<Rightarrow> ustring \<Rightarrow> ustring \<Rightarrow> ustring
   \<Rightarrow> fault + Processor option engine_result" where
  "engine_request env s cfg inputCS outputCS ckey cvalue =
     (let context = make_context env ckey cvalue;
          input_in_current_config = (getColorSpace cfg inputCS \<noteq> None);
          output_in_current_config = (getColorSpace cfg outputCS \<noteq> None)
      in case (if input_in_current_config then Inr False
               else interop_getColorSpace s inputCS) of
           Inl f \<Rightarrow> Inl f
         | Inr input_matches_builtin_interop_id \<Rightarrow>
      (case (if output_in_current_config then Inr False
             else interop_getColorSpace s outputCS) of
           Inl f \<Rightarrow> Inl f
         | Inr output_matches_builtin_interop_id \<Rightarrow>
      (let use_interop = ((input_matches_builtin_interop_id
                           \<or> output_matches_builtin_interop_id)
                          \<and> (\<not> input_in_current_config \<or> \<not> output_in_current_config))
       in if use_interop then
            (case interopconfig s of
               None \<Rightarrow> Inl NullPointerDereference
             | Some interop_config \<Rightarrow>
                 Inr (GetProcessorFromConfigs env context
                        (if input_matches_builtin_interop_id then interop_config else cfg)
                        inputCS context
                        (if output_matches_builtin_interop_id then interop_config else cfg)
                        outputCS))
          else Inr (getProcessor cfg context inputCS outputCS))))"

text \<open>
  The \<^verbatim>\<open>try\<close> block around the engine call, with its two \<^verbatim>\<open>catch\<close> clauses; the result
  is the processor \<^verbatim>\<open>p\<close>, \<^verbatim>\<open>pending_error\<close> and the state.
\<close>

definition try_getProcessor ::
  "Impl \<Rightarrow> Processor option engine_result \<Rightarrow> Processor option \<times> string \<times> Impl" where
  "try_getProcessor s r =
     (let s' = s\<lparr>engine_compiles := engine_compiles s + 1\<rparr>
      in case r of
           Returned p \<Rightarrow> (p, [], clear_error s')
         | OCIO_Exception what \<Rightarrow> (None, what, s')
         | Unknown_Exception \<Rightarrow>
             (None, [], error s' ''An unknown error occurred in OpenColorIO, getProcessor''))"

definition createColorProcessor ::
  "Env \<Rightarrow> Impl \<Rightarrow> ustring \<Rightarrow> ustring \<Rightarrow> ustring \<Rightarrow> ustring
   \<Rightarrow> fault + (ColorProcessorHandle \<times> Impl)" where
  "createColorProcessor env s inputCS outputCS ckey cvalue =
     (let prockey = createColorProcessor_prockey (uhash env) inputCS outputCS ckey cvalue;
          (handle, s1) = findproc s prockey
      in if handle \<noteq> None then Inr (handle, s1)
         else
           case (case config s1 of
                   None \<Rightarrow> Inr (None, [], None, s1)
                 | Some cfg \<Rightarrow>
                     if disable_ocio env then Inr (None, [], None, s1)
                     else (case engine_request env s1 cfg inputCS outputCS ckey cvalue of
                             Inl f \<Rightarrow> Inl f
                           | Inr r \<Rightarrow>
                               (let (p, pending_error, s2) = try_getProcessor s1 r
                                in case p of
                                     None \<Rightarrow> Inr (p, pending_error, None, s2)
                                   | Some pr \<Rightarrow>
                                       if \<not> proc_isNoOp pr
                                       then (let (h, s3) = new_ColorProcessor_OCIO s2 pr
                                             in Inr (p, pending_error, h, s3))
                                       else Inr (p, pending_error, None, s2)))) of
             Inl f \<Rightarrow> Inl f
           | Inr (p, pending_error, handle2, s4) \<Rightarrow>
               (let (handle3, s5) =
                      (case p of
                         None \<Rightarrow> (handle2, s4)
                       | Some pr \<Rightarrow> if handle2 = None then new_ColorProcessor_OCIO s4 pr
                                    else (handle2, s4));
                    s6 = (if pending_error \<noteq> [] then error s5 pending_error else s5)
                in Inr (addproc s6 prockey handle3)))"

text \<open>Two sequential calls building the same request.\<close>

definition request_twice ::
  "Env \<Rightarrow> Impl \<Rightarrow> ustring \<Rightarrow> ustring \<Rightarrow> ustring \<Rightarrow> ustring
   \<Rightarrow> fault + ((ColorProcessorHandle \<times> Impl) \<times> (ColorProcessorHandle \<times> Impl))" where
  "request_twice env s inputCS outputCS ckey cvalue =
     (case createColorProcessor env s inputCS outputCS ckey cvalue of
        Inl f \<Rightarrow> Inl f
      | Inr (h1, s1) \<Rightarrow>
          (case createColorProcessor env s1 inputCS outputCS ckey cvalue of
             Inl f \<Rightarrow> Inl f
           | Inr (h2, s2) \<Rightarrow> Inr ((h1, s1), (h2, s2))))"

section \<open>Color interop ids and CICP\<close>


















section \<open>Image buffers and the pixel kernels\<close>

text \<open>
  A channel value is the \<^verbatim>\<open>float\<close> that the image iterators read and write (the
  conversion between a buffer's storage type and \<^verbatim>\<open>float\<close> is theirs). Values are real
  numbers here: the kernels compare them, divide and multiply, and rounding is not
  part of the model. A pixel maps a channel index to its value, and so does a
  \<^verbatim>\<open>vfloat4\<close> on the indices 0 to 3; an image maps the coordinates \<open>(x, y, z)\<close> to a pixel.
  The two temporary arrays of a scanline, \<^verbatim>\<open>scanline\<close> and \<^verbatim>\<open>alpha\<close>, are indexed by
  the position in the scanline.
\<close>

type_synonym pixel = "nat \<Rightarrow> real"
type_synonym vfloat4 = "nat \<Rightarrow> real"
type_synonym image = "int \<times> int \<times> int \<Rightarrow> pixel"

record ROI =
  xbegin :: int
  xend :: int
  ybegin :: int
  yend :: int
  zbegin :: int
  zend :: int
  chbegin :: int
  chend :: int

datatype TypeDesc = TypeUInt8 | TypeUInt16 | TypeHalf | TypeFloat | TypeUnknown

record ImageBuf =
  pixels :: image
  nchannels :: int
  format :: TypeDesc
  localpixels :: bool
  alpha_channel :: int
  UnassociatedAlpha :: int
  errmsg :: string

text \<open>
  Buffers live at addresses: \<^verbatim>\<open>&dst == &src\<close> is equality of the addresses, and a write
  to the destination is a write to the source exactly when they are the same buffer.
\<close>

type_synonym store = "nat \<Rightarrow> ImageBuf"

text \<open>The virtual interface of \<^verbatim>\<open>ColorProcessor\<close> that the kernels use: \<^verbatim>\<open>apply\<close>
  (\<open>apply_inplace\<close> here) works in place on the \<open>width\<close> pixels of the scanline.\<close>

record ColorProcessor =
  isNoOp :: bool
  apply_inplace :: "nat \<Rightarrow> (nat \<Rightarrow> vfloat4) \<Rightarrow> (nat \<Rightarrow> vfloat4)"

text \<open>\<^verbatim>\<open>std::numeric_limits<float>::min()\<close>, the smallest positive normal \<^verbatim>\<open>float\<close>.\<close>

definition fltmin :: real where
  "fltmin = 1 / 2 ^ 126"

text \<open>\<^verbatim>\<open>vfloat4(a, a, a, 1.0f)\<close>\<close>

definition vfloat4_aaa1 :: "real \<Rightarrow> vfloat4" where
  "vfloat4_aaa1 a = (\<lambda>c. if c < 3 then a else 1)"

text \<open>Loading one pixel: \<^verbatim>\<open>vfloat4 v(0.0f); for (c < channelsToCopy) v[c] = a[c];
  if (channelsToCopy == 1) v[2] = v[1] = v[0];\<close>\<close>

definition load_pixel :: "nat \<Rightarrow> pixel \<Rightarrow> vfloat4" where
  "load_pixel channelsToCopy a =
     (let v = fold (\<lambda>c v. v(c := a c)) [0..<channelsToCopy] (\<lambda>c. 0)
      in if channelsToCopy = 1 then (let v1 = v(1 := v 0) in v1(2 := v1 1)) else v)"

definition load_scanline ::
  "nat \<Rightarrow> image \<Rightarrow> int \<Rightarrow> int \<Rightarrow> int \<Rightarrow> nat \<Rightarrow> (nat \<Rightarrow> vfloat4)" where
  "load_scanline channelsToCopy A xb j k width =
     fold (\<lambda>i scanline. scanline(i := load_pixel channelsToCopy (A (xb + int i, j, k))))
       [0..<width] (\<lambda>i c. 0)"

text \<open>The unpremultiply and premultiply loops of \<^verbatim>\<open>colorconvert_impl\<close>.\<close>

definition unpremult_step ::
  "nat \<Rightarrow> (nat \<Rightarrow> vfloat4) \<times> (nat \<Rightarrow> real) \<Rightarrow> (nat \<Rightarrow> vfloat4) \<times> (nat \<Rightarrow> real)" where
  "unpremult_step i st =
     (let scanline = fst st; alpha = snd st;
          a = scanline i 3;
          alpha = alpha(i := a);
          a = (if a \<ge> fltmin then a else 1)
      in (scanline(i := (\<lambda>c. scanline i c / vfloat4_aaa1 a c)), alpha))"

definition unpremult_pass ::
  "nat \<Rightarrow> (nat \<Rightarrow> vfloat4) \<times> (nat \<Rightarrow> real) \<Rightarrow> (nat \<Rightarrow> vfloat4) \<times> (nat \<Rightarrow> real)" where
  "unpremult_pass width st = fold unpremult_step [0..<width] st"

definition premult_step :: "(nat \<Rightarrow> real) \<Rightarrow> nat \<Rightarrow> (nat \<Rightarrow> vfloat4) \<Rightarrow> (nat \<Rightarrow> vfloat4)" where
  "premult_step alpha i scanline =
     (let a = alpha i;
          a = (if a \<ge> fltmin then a else 1)
      in scanline(i := (\<lambda>c. scanline i c * vfloat4_aaa1 a c)))"

definition premult_pass ::
  "nat \<Rightarrow> (nat \<Rightarrow> real) \<Rightarrow> (nat \<Rightarrow> vfloat4) \<Rightarrow> (nat \<Rightarrow> vfloat4)" where
  "premult_pass width alpha scanline = fold (premult_step alpha) [0..<width] scanline"

text \<open>The same loops in \<^verbatim>\<open>colorconvert_impl_float_rgba\<close>: the unpremultiply loop keeps
  the pixel as it is when the divisor is \<open>1\<close>.\<close>

definition unpremult_step_rgba ::
  "nat \<Rightarrow> (nat \<Rightarrow> vfloat4) \<times> (nat \<Rightarrow> real) \<Rightarrow> (nat \<Rightarrow> vfloat4) \<times> (nat \<Rightarrow> real)" where
  "unpremult_step_rgba i st =
     (let scanline = fst st; alpha = snd st;
          p = scanline i;
          a = p 3;
          alpha = alpha(i := a);
          a = (if a \<ge> fltmin then a else 1)
      in if a = 1 then (scanline(i := p), alpha)
         else (scanline(i := (\<lambda>c. p c / vfloat4_aaa1 a c)), alpha))"

definition unpremult_pass_rgba ::
  "nat \<Rightarrow> (nat \<Rightarrow> vfloat4) \<times> (nat \<Rightarrow> real) \<Rightarrow> (nat \<Rightarrow> vfloat4) \<times> (nat \<Rightarrow> real)" where
  "unpremult_pass_rgba width st = fold unpremult_step_rgba [0..<width] st"

definition premult_step_rgba ::
  "(nat \<Rightarrow> real) \<Rightarrow> nat \<Rightarrow> (nat \<Rightarrow> vfloat4) \<Rightarrow> (nat \<Rightarrow> vfloat4)" where
  "premult_step_rgba alpha i scanline =
     (let p = scanline i;
          a = alpha i;
          a = (if a \<ge> fltmin then a else 1);
          p = (\<lambda>c. p c * vfloat4_aaa1 a c)
      in scanline(i := p))"

definition premult_pass_rgba ::
  "nat \<Rightarrow> (nat \<Rightarrow> real) \<Rightarrow> (nat \<Rightarrow> vfloat4) \<Rightarrow> (nat \<Rightarrow> vfloat4)" where
  "premult_pass_rgba width alpha scanline = fold (premult_step_rgba alpha) [0..<width] scanline"

text \<open>Storing the scanline: \<^verbatim>\<open>for (c < channelsToCopy) r[c] = dstPtr[c];\<close> for every
  pixel of the row.\<close>

definition store_pixel :: "nat \<Rightarrow> vfloat4 \<Rightarrow> pixel \<Rightarrow> pixel" where
  "store_pixel channelsToCopy v r = fold (\<lambda>c r. r(c := v c)) [0..<channelsToCopy] r"

definition store_scanline ::
  "nat \<Rightarrow> (nat \<Rightarrow> vfloat4) \<Rightarrow> int \<Rightarrow> int \<Rightarrow> int \<Rightarrow> nat \<Rightarrow> image \<Rightarrow> image" where
  "store_scanline channelsToCopy scanline xb j k width R =
     fold (\<lambda>i R. R((xb + int i, j, k) :=
                     store_pixel channelsToCopy (scanline i) (R (xb + int i, j, k))))
       [0..<width] R"

text \<open>The leftover channels: \<^verbatim>\<open>for (c = channelsToCopy; c < roi.chend; ++c)
  r[c] = 0.5 + 10 * a[c];\<close> for every pixel of the row.\<close>

definition leftover_pixel :: "nat \<Rightarrow> nat \<Rightarrow> pixel \<Rightarrow> pixel \<Rightarrow> pixel" where
  "leftover_pixel channelsToCopy chend' a r =
     fold (\<lambda>c r. r(c := 0.5 + 10 * a c)) [channelsToCopy..<chend'] r"

definition leftover_scanline ::
  "nat \<Rightarrow> nat \<Rightarrow> image \<Rightarrow> int \<Rightarrow> int \<Rightarrow> int \<Rightarrow> nat \<Rightarrow> image \<Rightarrow> image" where
  "leftover_scanline channelsToCopy chend' A xb j k width R =
     fold (\<lambda>i R. R((xb + int i, j, k) :=
                     leftover_pixel channelsToCopy chend' (A (xb + int i, j, k))
                       (R (xb + int i, j, k))))
       [0..<width] R"

definition roi_width :: "ROI \<Rightarrow> nat" where
  "roi_width roi = nat (xend roi - xbegin roi)"

text \<open>
  The body of the loop over \<open>j\<close> in \<^verbatim>\<open>colorconvert_impl\<close>, for the scanline \<open>j\<close> of the
  slice \<open>k\<close>; \<open>R\<close> and \<open>A\<close> are the addresses of the destination and of the source. The
  temporary arrays are fresh memory and every entry below \<open>width\<close> is written before it
  is read; they start at zero here.
\<close>

definition colorconvert_impl_scanline ::
  "ColorProcessor \<Rightarrow> bool \<Rightarrow> int \<Rightarrow> ROI \<Rightarrow> nat \<Rightarrow> nat \<Rightarrow> int \<Rightarrow> int \<Rightarrow> store \<Rightarrow> store" where
  "colorconvert_impl_scanline processor unpremult channelsToCopy roi R A k j st =
     (let width = roi_width roi;
          scanline = load_scanline (nat channelsToCopy) (pixels (st A)) (xbegin roi) j k width;
          (scanline, alpha) = (if unpremult then unpremult_pass width (scanline, \<lambda>i. 0)
                               else (scanline, \<lambda>i. 0));
          scanline = apply_inplace processor width scanline;
          scanline = (if unpremult then premult_pass width alpha scanline else scanline);
          st = st(R := (st R)\<lparr>pixels :=
                  store_scanline (nat channelsToCopy) scanline (xbegin roi) j k width
                    (pixels (st R))\<rparr>)
      in if channelsToCopy < chend roi \<and> R \<noteq> A
         then st(R := (st R)\<lparr>pixels :=
                  leftover_scanline (nat channelsToCopy) (nat (chend roi)) (pixels (st A))
                    (xbegin roi) j k width (pixels (st R))\<rparr>)
         else st)"

text \<open>
  \<^verbatim>\<open>colorconvert_impl\<close>. \<^verbatim>\<open>parallel_image\<close> runs its body on the parts of a partition of
  the region, and each run touches its part only; the model is one run on the whole
  region.
\<close>

definition colorconvert_impl ::
  "ColorProcessor \<Rightarrow> store \<Rightarrow> nat \<Rightarrow> nat \<Rightarrow> bool \<Rightarrow> ROI \<Rightarrow> bool \<times> store" where
  "colorconvert_impl processor st R A unpremult roi =
     (let channelsToCopy = min 4 (chend roi - chbegin roi);
          unpremult = (if channelsToCopy < 4 then False else unpremult)
      in (True,
          fold (\<lambda>k st.
                  fold (\<lambda>j st. colorconvert_impl_scanline processor unpremult channelsToCopy
                                  roi R A k j st)
                    [ybegin roi..yend roi - 1] st)
            [zbegin roi..zend roi - 1] st))"

text \<open>\<^verbatim>\<open>colorconvert_impl_float_rgba\<close>: both buffers have four \<^verbatim>\<open>float\<close> channels, and a
  scanline is copied in and out whole.\<close>

definition colorconvert_impl_float_rgba_scanline ::
  "ColorProcessor \<Rightarrow> bool \<Rightarrow> ROI \<Rightarrow> nat \<Rightarrow> nat \<Rightarrow> int \<Rightarrow> int \<Rightarrow> store \<Rightarrow> store" where
  "colorconvert_impl_float_rgba_scanline processor unpremult roi R A k j st =
     (let width = roi_width roi;
          scanline = load_scanline 4 (pixels (st A)) (xbegin roi) j k width;
          (scanline, alpha) = (if unpremult then unpremult_pass_rgba width (scanline, \<lambda>i. 0)
                               else (scanline, \<lambda>i. 0));
          scanline = apply_inplace processor width scanline;
          scanline = (if unpremult then premult_pass_rgba width alpha scanline else scanline)
      in st(R := (st R)\<lparr>pixels :=
                  store_scanline 4 scanline (xbegin roi) j k width (pixels (st R))\<rparr>))"

definition colorconvert_impl_float_rgba ::
  "ColorProcessor \<Rightarrow> store \<Rightarrow> nat \<Rightarrow> nat \<Rightarrow> bool \<Rightarrow> ROI \<Rightarrow> bool \<times> store" where
  "colorconvert_impl_float_rgba processor st R A unpremult roi =
     (True,
      fold (\<lambda>k st.
              fold (\<lambda>j st. colorconvert_impl_float_rgba_scanline processor unpremult roi R A
                              k j st)
                [ybegin roi..yend roi - 1] st)
        [zbegin roi..zend roi - 1] st)"

section \<open>ImageBufAlgo::colorconvert with a processor\<close>

text \<open>
  Modelled from the spec: \<^verbatim>\<open>ImageBufAlgo::copy\<close> is not in the file; the spec calls it
  a plain copy that produces an exact copy of the source. Every channel of the region
  of every pixel of the region takes the source's value, and the call succeeds.
\<close>

definition ImageBufAlgo_copy :: "store \<Rightarrow> nat \<Rightarrow> nat \<Rightarrow> ROI \<Rightarrow> bool \<times> store" where
  "ImageBufAlgo_copy st dst src roi =
     (True,
      st(dst := (st dst)\<lparr>pixels :=
           (\<lambda>(x, y, z).
              if xbegin roi \<le> x \<and> x < xend roi \<and> ybegin roi \<le> y \<and> y < yend roi
                 \<and> zbegin roi \<le> z \<and> z < zend roi
              then (\<lambda>c. if chbegin roi \<le> int c \<and> int c < chend roi
                        then pixels (st src) (x, y, z) c
                        else pixels (st dst) (x, y, z) c)
              else pixels (st dst) (x, y, z))\<rparr>))"

text \<open>
  \<^verbatim>\<open>IBAprep\<close> is not in the file either and the spec does not describe it; it is the
  parameter \<open>IBAprep\<close>, which answers whether the preparation succeeded and gives the
  region and the buffers as it leaves them. The type dispatch of
  \<^verbatim>\<open>OIIO_DISPATCH_COMMON_TYPES2\<close> chooses the instance of \<^verbatim>\<open>colorconvert_impl\<close>.
\<close>

definition colorconvert ::
  "(ROI \<Rightarrow> nat \<Rightarrow> nat \<Rightarrow> store \<Rightarrow> bool \<times> ROI \<times> store) \<Rightarrow> store \<Rightarrow> nat \<Rightarrow> nat
   \<Rightarrow> ColorProcessor option \<Rightarrow> bool \<Rightarrow> ROI \<Rightarrow> bool \<times> store" where
  "colorconvert IBAprep st dst src processor unpremult roi =
     (case processor of
        None \<Rightarrow>
          (False, st(dst := (st dst)\<lparr>errmsg :=
             ''Passed NULL ColorProcessor to colorconvert() [probable application bug]''\<rparr>))
      | Some proc \<Rightarrow>
          if isNoOp proc \<and> dst = src then (True, st)
          else
            (let (ok, roi1, st1) = IBAprep roi dst src st
             in if \<not> ok then (False, st1)
                else if isNoOp proc then ImageBufAlgo_copy st1 dst src roi1
                else
                  (let unpremult1 =
                         (if unpremult \<and> alpha_channel (st1 src) \<ge> 0
                             \<and> UnassociatedAlpha (st1 src) \<noteq> 0
                          then False else unpremult)
                   in if localpixels (st1 dst) \<and> localpixels (st1 src)
                         \<and> format (st1 dst) = TypeFloat \<and> format (st1 src) = TypeFloat
                         \<and> nchannels (st1 dst) = 4 \<and> nchannels (st1 src) = 4
                      then colorconvert_impl_float_rgba proc st1 dst src unpremult1 roi1
                      else colorconvert_impl proc st1 dst src unpremult1 roi1)))"

section \<open>What a request leaves behind, and the configurations of the examples\<close>

text \<open>
  The message that a failed compilation leaves in the sticky error slot: the message of
  the \<^verbatim>\<open>OCIO::Exception\<close> when it is not empty (\<^verbatim>\<open>if (pending_error.size())\<close>), the
  fixed message for any other exception; and the state after a request that missed
  the cache and failed in the engine.
\<close>

definition recorded_error :: "Impl \<Rightarrow> Processor option engine_result \<Rightarrow> string" where
  "recorded_error s r =
     (case r of
        OCIO_Exception what \<Rightarrow> if what = [] then m_error s else what
      | Unknown_Exception \<Rightarrow> ''An unknown error occurred in OpenColorIO, getProcessor''
      | Returned p \<Rightarrow> [])"

definition after_failed_request :: "Impl \<Rightarrow> Processor option engine_result \<Rightarrow> Impl" where
  "after_failed_request s r =
     s\<lparr>colorprocs_requested := colorprocs_requested s + 1,
       engine_compiles := engine_compiles s + 1,
       m_error := recorded_error s r\<rparr>"

text \<open>
  A small engine: a live configuration with two color spaces, an interop identities
  configuration with one, no built-in equivalents and no bridge between documents.
\<close>

definition demo_space :: "string \<Rightarrow> ColorSpace" where
  "demo_space n = \<lparr> getName = n, isData = False, getInteropID = [], getAliases = [] \<rparr>"

definition demo_config :: Config where
  "demo_config =
     \<lparr> getColorSpaceNameByIndex = [''lin_rec709_scene'', ''srgb_rec709_scene''],
       getColorSpace = (\<lambda>n. if n = ''lin_rec709_scene'' \<or> n = ''srgb_rec709_scene''
                             then Some (demo_space n) else None),
       getProcessor = (\<lambda>ctx i o'.
          if (i = ''lin_rec709_scene'' \<or> i = ''srgb_rec709_scene'')
             \<and> (o' = ''lin_rec709_scene'' \<or> o' = ''srgb_rec709_scene'')
          then Returned (Some \<lparr> proc_desc = i @ '' to '' @ o', proc_isNoOp = (i = o') \<rparr>)
          else OCIO_Exception ''Color space could not be found'') \<rparr>"

definition demo_interop :: Config where
  "demo_interop =
     \<lparr> getColorSpaceNameByIndex = [''srgb_rec709_display''],
       getColorSpace = (\<lambda>n. if n = ''srgb_rec709_display'' then Some (demo_space n) else None),
       getProcessor = (\<lambda>ctx i o'. OCIO_Exception ''unsupported'') \<rparr>"

definition demo_env :: Env where
  "demo_env =
     \<lparr> disable_ocio = False, disable_builtin_configs = False, ocio_2_5_or_newer = False,
       site_spi = False,
       uhash = (\<lambda>s. of_nat (length s)),
       splits = (\<lambda>s. [s]),
       IdentifyBuiltinColorSpace = (\<lambda>c i n. OCIO_Exception ''no equivalent''),
       GetProcessorFromConfigs = (\<lambda>c1 s1 i c2 s2 o'. OCIO_Exception ''no bridge'') \<rparr>"

definition demo_impl :: Impl where
  "demo_impl = new_Impl\<lparr>config := Some demo_config, interopconfig := Some demo_interop\<rparr>"

definition demo_not_found :: "Processor option engine_result" where
  "demo_not_found = OCIO_Exception ''Color space could not be found''"

definition demo_garbage_key :: ColorProcCacheKey where
  "demo_garbage_key =
     createColorProcessor_prockey (uhash demo_env) ''garbage'' ''lin_rec709_scene'' [] []"

definition demo_after_first :: Impl where
  "demo_after_first =
     demo_impl\<lparr>colorprocs_requested := 1, engine_compiles := 1,
               m_error := ''Color space could not be found''\<rparr>"

definition demo_after_second :: Impl where
  "demo_after_second =
     demo_impl\<lparr>colorprocs_requested := 2, engine_compiles := 2,
               m_error := ''Color space could not be found''\<rparr>"

definition demo_key :: ColorProcCacheKey where
  "demo_key =
     createColorProcessor_prockey (uhash demo_env) ''srgb_rec709_scene'' ''lin_rec709_scene''
       [] []"

definition demo_processor :: ColorProcessor_OCIO where
  "demo_processor =
     \<lparr> obj_addr = 0,
       m_p = \<lparr> proc_desc = ''srgb_rec709_scene to lin_rec709_scene'', proc_isNoOp = False \<rparr> \<rparr>"

definition demo_later_processor :: ColorProcessor_OCIO where
  "demo_later_processor =
     \<lparr> obj_addr = 1,
       m_p = \<lparr> proc_desc = ''srgb_rec709_scene to lin_rec709_scene'', proc_isNoOp = False \<rparr> \<rparr>"

definition demo_installed :: Impl where
  "demo_installed =
     demo_impl\<lparr>colorprocs_requested := 1, engine_compiles := 1, heap_next := 1,
               colorprocmap := [demo_key \<mapsto> Some demo_processor],
               colorprocs_created := 1\<rparr>"

text \<open>The same engine with \<^verbatim>\<open>OIIO_DISABLE_OCIO\<close> set, and the configuration that
  the constructor then builds.\<close>

definition demo_disabled_env :: Env where
  "demo_disabled_env = demo_env\<lparr>disable_ocio := True\<rparr>"

definition demo_fallback :: Impl where
  "demo_fallback =
     inventory_fallback demo_disabled_env
       (loaded_Impl (Some demo_config) None (Some demo_interop) False [])"

text \<open>A registry with two entries added through \<^verbatim>\<open>add(name, index, flags)\<close>: both are
  flagged sRGB, the second one also as having a linear response.\<close>

definition demo_registry :: Impl where
  "demo_registry =
     add (add demo_impl ''camA'' 0 is_srgb) ''camB'' 1 (is_srgb OR is_linear_response)"

definition demo_camA :: CSInfo where
  "demo_camA = mk_CSInfo ''camA'' 0 is_srgb"

definition demo_camB :: CSInfo where
  "demo_camB = mk_CSInfo ''camB'' 1 (is_srgb OR is_linear_response)"

text \<open>
  A build with \<^verbatim>\<open>OIIO_SITE_spi\<close> and a configuration with the color spaces
  \<^verbatim>\<open>plate_lin\<close> and \<^verbatim>\<open>srgblnf\<close>, where the engine identifies \<^verbatim>\<open>plate_lin\<close> as the
  equivalent of the built-in linear sRGB space; and the state that the constructor
  builds from it.
\<close>

definition demo_spi_config :: Config where
  "demo_spi_config =
     \<lparr> getColorSpaceNameByIndex = [''plate_lin'', ''srgblnf''],
       getColorSpace = (\<lambda>n. if n = ''plate_lin'' \<or> n = ''srgblnf''
                             then Some (demo_space n) else None),
       getProcessor = (\<lambda>ctx i o'. OCIO_Exception ''unsupported'') \<rparr>"

definition demo_spi_env :: Env where
  "demo_spi_env =
     demo_env\<lparr>site_spi := True,
              IdentifyBuiltinColorSpace :=
                (\<lambda>c i n. if n = ''lin_srgb'' then Returned (Some ''plate_lin'')
                         else OCIO_Exception ''no equivalent'')\<rparr>"

definition demo_plate_lin :: CSInfo where
  "demo_plate_lin =
     \<lparr> name = ''plate_lin'', index = 0, m_flags = 9, examined = False, canonical = [] \<rparr>"

definition demo_srgblnf :: CSInfo where
  "demo_srgblnf =
     \<lparr> name = ''srgblnf'', index = 1, m_flags = 8, examined = True,
       canonical = ''lin_rec709_scene'' \<rparr>"

definition demo_spi_impl :: Impl where
  "demo_spi_impl =
     (loaded_Impl (Some demo_spi_config) None (Some demo_interop) False [])
       \<lparr>colorspaces := [demo_plate_lin, demo_srgblnf], lin_srgb_alias := ''srgblnf''\<rparr>"



text \<open>
  A region of one pixel with five channels, a source buffer (at address 0) whose
  channels all hold 2 and destination buffers whose channels all hold 0, an identity
  processor, a processor that doubles every value, and two outcomes of the
  preparation of the region. Three one-pixel scanlines: with alpha 0, with alpha
  one half, and with alpha exactly \<open>fltmin\<close>; and a transform that adds 1.
\<close>

definition demo_roi :: ROI where
  "demo_roi = \<lparr> xbegin = 0, xend = 1, ybegin = 0, yend = 1, zbegin = 0, zend = 1,
                chbegin = 0, chend = 5 \<rparr>"

definition demo_buf :: "real \<Rightarrow> ImageBuf" where
  "demo_buf v = \<lparr> pixels = (\<lambda>p c. v), nchannels = 5, format = TypeFloat, localpixels = True,
                  alpha_channel = 3, UnassociatedAlpha = 0, errmsg = [] \<rparr>"

definition demo_store :: store where
  "demo_store = (\<lambda>a. if a = 0 then demo_buf 2 else demo_buf 0)"

definition demo_noop :: ColorProcessor where
  "demo_noop = \<lparr> isNoOp = True, apply_inplace = (\<lambda>w scanline. scanline) \<rparr>"

definition demo_gain :: ColorProcessor where
  "demo_gain = \<lparr> isNoOp = False, apply_inplace = (\<lambda>w scanline i c. 2 * scanline i c) \<rparr>"

definition demo_IBAprep_accepts :: "ROI \<Rightarrow> nat \<Rightarrow> nat \<Rightarrow> store \<Rightarrow> bool \<times> ROI \<times> store" where
  "demo_IBAprep_accepts roi dst src st = (True, roi, st)"

definition demo_IBAprep_rejects :: "ROI \<Rightarrow> nat \<Rightarrow> nat \<Rightarrow> store \<Rightarrow> bool \<times> ROI \<times> store" where
  "demo_IBAprep_rejects roi dst src st = (False, roi, st)"

definition demo_low :: "nat \<Rightarrow> vfloat4" where
  "demo_low = (\<lambda>i c. if c = 3 then 0 else 1 / 2)"

definition demo_high :: "nat \<Rightarrow> vfloat4" where
  "demo_high = (\<lambda>i c. 1 / 2)"

definition demo_threshold :: "nat \<Rightarrow> vfloat4" where
  "demo_threshold = (\<lambda>i c. if c = 3 then fltmin else 1)"

definition demo_alpha :: "nat \<Rightarrow> real" where
  "demo_alpha = (\<lambda>i. 0)"

definition demo_T :: "(nat \<Rightarrow> vfloat4) \<Rightarrow> (nat \<Rightarrow> vfloat4)" where
  "demo_T scanline = (\<lambda>i c. scanline i c + 1)"

section \<open>Properties\<close>

subsection \<open>Cache keys of file transforms and named transforms\<close>

text \<open>
  C4. The claim is that the key of \<^verbatim>\<open>createFileTransform(p, b)\<close> differs from the key
  of \<^verbatim>\<open>createNamedTransform(n, b, ustring(), ustring())\<close>, the named transform with
  the empty context key and value, for every \<open>n\<close>. In the source both builders
  put their name in the \<^verbatim>\<open>namedtransform\<close> field and leave \<^verbatim>\<open>file\<close> empty, so for every
  hash function, every path and every flag the two keys are the same key when the
  named transform is called like the file: a processor cached for one is returned for
  the other.
\<close>

theorem C4_file_key_equals_named_key:
  "createFileTransform_prockey h p b = createNamedTransform_prockey h p b [] []
   \<and> file_path (createFileTransform_prockey h p b) = []
   \<and> namedtransform (createFileTransform_prockey h p b) = p"
  by (simp add: createFileTransform_prockey_def createNamedTransform_prockey_def
      mk_ColorProcCacheKey_def)

subsection \<open>The processor cache: failed and repeated requests\<close>

lemma interop_getColorSpace_cong:
  "interopconfig s' = interopconfig s \<Longrightarrow> interop_getColorSpace s' n = interop_getColorSpace s n"
  by (simp add: interop_getColorSpace_def)

lemma engine_request_cong:
  assumes "interopconfig s' = interopconfig s"
  shows "engine_request env s' cfg i o' k v = engine_request env s cfg i o' k v"
  unfolding engine_request_def interop_getColorSpace_cong [OF assms] assms ..

lemma engine_request_requested [simp]:
  "engine_request env (s\<lparr>colorprocs_requested := n\<rparr>) cfg i o' k v
   = engine_request env s cfg i o' k v"
  by (rule engine_request_cong) simp

lemma failed_request:
  assumes miss: "colorprocmap s (createColorProcessor_prockey (uhash env) i o' k v) = None"
    and cfg: "config s = Some cfg" and en: "\<not> disable_ocio env"
    and req: "engine_request env s cfg i o' k v = Inr r"
    and r: "r = OCIO_Exception msg \<or> r = Unknown_Exception"
  shows "createColorProcessor env s i o' k v = Inr (None, after_failed_request s r)"
  using r
proof
  assume "r = OCIO_Exception msg"
  then show ?thesis using miss cfg en req
    by (simp add: createColorProcessor_def findproc_def try_getProcessor_def addproc_def
        error_def recorded_error_def after_failed_request_def Let_def)
next
  assume "r = Unknown_Exception"
  then show ?thesis using miss cfg en req
    by (simp add: createColorProcessor_def findproc_def try_getProcessor_def addproc_def
        error_def recorded_error_def after_failed_request_def Let_def)
qed

text \<open>
  C1, as amended. A request that misses the cache and whose compilation throws in the
  engine records the message in the sticky error slot (the exception's own message
  when it is not empty, the fixed message for an unknown exception) and returns the
  empty handle. \<^verbatim>\<open>addproc\<close> returns an empty handle without storing it, so the cache is
  as it was, and the next identical request returns the empty handle again after
  asking the engine to compile once more: two requests, two compilations.
\<close>

theorem C1_failed_request_not_cached:
  assumes miss: "colorprocmap s (createColorProcessor_prockey (uhash env) i o' k v) = None"
    and cfg: "config s = Some cfg" and en: "\<not> disable_ocio env"
    and req: "engine_request env s cfg i o' k v = Inr r"
    and r: "r = OCIO_Exception msg \<or> r = Unknown_Exception"
  shows "request_twice env s i o' k v =
           Inr ((None, after_failed_request s r),
                (None, after_failed_request (after_failed_request s r) r))
         \<and> m_error (after_failed_request s r) = recorded_error s r
         \<and> colorprocmap (after_failed_request s r) = colorprocmap s
         \<and> engine_compiles (after_failed_request (after_failed_request s r) r)
             = engine_compiles s + 2"
proof -
  let ?s1 = "after_failed_request s r"
  have 1: "createColorProcessor env s i o' k v = Inr (None, ?s1)"
    by (rule failed_request [OF miss cfg en req r])
  have m1: "colorprocmap ?s1 (createColorProcessor_prockey (uhash env) i o' k v) = None"
    using miss by (simp add: after_failed_request_def)
  have c1: "config ?s1 = Some cfg" using cfg by (simp add: after_failed_request_def)
  have "engine_request env ?s1 cfg i o' k v = engine_request env s cfg i o' k v"
    by (rule engine_request_cong) (simp add: after_failed_request_def)
  then have r1: "engine_request env ?s1 cfg i o' k v = Inr r" using req by simp
  have 2: "createColorProcessor env ?s1 i o' k v = Inr (None, after_failed_request ?s1 r)"
    by (rule failed_request [OF m1 c1 en r1 r])
  show ?thesis using 1 2
    by (simp add: request_twice_def after_failed_request_def)
qed

theorem C1_failed_request_not_cached_witness:
  "request_twice demo_env demo_impl ''garbage'' ''lin_rec709_scene'' [] [] =
     Inr ((None, after_failed_request demo_impl demo_not_found),
          (None, after_failed_request (after_failed_request demo_impl demo_not_found)
                   demo_not_found))
   \<and> m_error (after_failed_request demo_impl demo_not_found)
       = ''Color space could not be found''"
proof -
  have miss: "colorprocmap demo_impl
                (createColorProcessor_prockey (uhash demo_env) ''garbage''
                   ''lin_rec709_scene'' [] []) = None"
    by (simp add: demo_impl_def new_Impl_def)
  have cfg: "config demo_impl = Some demo_config" by (simp add: demo_impl_def new_Impl_def)
  have en: "\<not> disable_ocio demo_env" by (simp add: demo_env_def)
  have req: "engine_request demo_env demo_impl demo_config ''garbage'' ''lin_rec709_scene''
               [] [] = Inr demo_not_found"
    by (simp add: engine_request_def interop_getColorSpace_def demo_impl_def new_Impl_def
        demo_config_def demo_interop_def demo_not_found_def demo_env_def make_context_def)
  have r: "demo_not_found = OCIO_Exception ''Color space could not be found''
           \<or> demo_not_found = Unknown_Exception"
    by (simp add: demo_not_found_def)
  from C1_failed_request_not_cached [OF miss cfg en req r]
  show ?thesis by (simp add: recorded_error_def demo_not_found_def)
qed

text \<open>
  C1 as stated fails: after the failed request for the unknown name \<open>garbage\<close> the
  cache has no entry under the request's key, and the second, identical request makes
  the engine compile a second time.
\<close>

theorem C1_empty_handle_cached_counterexample:
  "request_twice demo_env demo_impl ''garbage'' ''lin_rec709_scene'' [] [] =
     Inr ((None, demo_after_first), (None, demo_after_second))
   \<and> colorprocmap demo_after_first demo_garbage_key = None
   \<and> engine_compiles demo_after_first = 1
   \<and> engine_compiles demo_after_second = 2"
  by (simp add: request_twice_def createColorProcessor_def findproc_def try_getProcessor_def
        addproc_def error_def Let_def demo_impl_def new_Impl_def demo_after_first_def
        demo_after_second_def engine_request_def interop_getColorSpace_def
        demo_config_def demo_interop_def demo_env_def make_context_def)

lemma cache_hit:
  assumes "colorprocmap s (createColorProcessor_prockey (uhash env) i o' k v) = Some (Some h)"
  shows "createColorProcessor env s i o' k v =
           Inr (Some h, s\<lparr>colorprocs_requested := colorprocs_requested s + 1\<rparr>)"
  using assms by (simp add: createColorProcessor_def findproc_def Let_def)

lemma addproc_installed:
  "addproc s key handle = (h, s') \<Longrightarrow> h \<noteq> None \<Longrightarrow> colorprocmap s' key = Some h"
  by (auto simp: addproc_def split: if_splits option.splits)

lemma addproc_None:
  "addproc s key handle = (None, s') \<Longrightarrow> s' = s"
  by (auto simp: addproc_def split: if_splits option.splits)

lemma installed_after_request:
  assumes "createColorProcessor env s i o' k v = Inr (h1, s1)" and "h1 \<noteq> None"
  shows "colorprocmap s1 (createColorProcessor_prockey (uhash env) i o' k v) = Some h1"
  using assms
  by (auto simp: createColorProcessor_def findproc_def Let_def try_getProcessor_def
      new_ColorProcessor_OCIO_def error_def clear_error_def
      split: option.splits sum.splits if_splits prod.splits engine_result.splits
      dest!: addproc_installed)

lemma empty_after_request:
  assumes "createColorProcessor env s i o' k v = Inr (None, s1)"
  shows "colorprocmap s1 = colorprocmap s \<and> config s1 = config s
         \<and> interopconfig s1 = interopconfig s"
  using assms
  by (auto simp: createColorProcessor_def findproc_def Let_def try_getProcessor_def
      new_ColorProcessor_OCIO_def error_def clear_error_def
      split: option.splits sum.splits if_splits prod.splits engine_result.splits
      dest!: addproc_None)

lemma empty_iff:
  assumes "createColorProcessor env s i o' k v = Inr (h, s1)"
  shows "(h = None) =
           (case colorprocmap s (createColorProcessor_prockey (uhash env) i o' k v) of
              Some (Some h') \<Rightarrow> False
            | Some None \<Rightarrow> True
            | None \<Rightarrow>
                (case config s of
                   None \<Rightarrow> True
                 | Some cfg \<Rightarrow>
                     disable_ocio env
                     \<or> (case engine_request env s cfg i o' k v of
                           Inr (Returned (Some p)) \<Rightarrow> False
                         | _ \<Rightarrow> True)))"
  using assms
  by (auto simp: createColorProcessor_def findproc_def Let_def try_getProcessor_def
      new_ColorProcessor_OCIO_def error_def clear_error_def addproc_def
      split: option.splits sum.splits if_splits prod.splits engine_result.splits)

lemma empty_determined:
  assumes 1: "createColorProcessor env s i o' k v = Inr (None, s1)"
    and 2: "createColorProcessor env s' i o' k v = Inr (h2, s2)"
    and m: "colorprocmap s' = colorprocmap s" and c: "config s' = config s"
    and ic: "interopconfig s' = interopconfig s"
  shows "h2 = None"
proof -
  have e: "\<And>cfg. engine_request env s' cfg i o' k v = engine_request env s cfg i o' k v"
    by (rule engine_request_cong) (simp add: ic)
  from empty_iff [OF 1] empty_iff [OF 2, unfolded m c e] show ?thesis
    by simp
qed

lemma second_request:
  assumes "request_twice env s i o' k v = Inr ((h1, s1), (h2, s2))"
  shows "h2 = h1
         \<and> (h1 \<noteq> None \<longrightarrow>
              colorprocmap s1 (createColorProcessor_prockey (uhash env) i o' k v) = Some h1
              \<and> s2 = s1\<lparr>colorprocs_requested := colorprocs_requested s1 + 1\<rparr>)"
proof -
  from assms have 1: "createColorProcessor env s i o' k v = Inr (h1, s1)"
    and 2: "createColorProcessor env s1 i o' k v = Inr (h2, s2)"
    by (auto simp: request_twice_def split: sum.splits)
  show ?thesis
  proof (cases h1)
    case None
    with 1 have e1: "createColorProcessor env s i o' k v = Inr (None, s1)" by simp
    from empty_after_request [OF e1] empty_determined [OF e1 2] None show ?thesis by simp
  next
    case (Some h)
    with installed_after_request [OF 1] cache_hit [of s1 env i o' k v h] 2
    show ?thesis by simp
  qed
qed

text \<open>
  C2. If a handle is installed for a key, \<^verbatim>\<open>addproc\<close> discards the handle it is given
  and returns the installed one, leaving the state as it is. Two sequential calls
  building the same conversion request return the same handle; when the first call
  returned a processor, that processor is the one installed under the key, and the
  second call returns that very object from the cache, without a compilation and
  without a change to the cache.
\<close>

theorem C2_installed_processor_wins:
  "(colorprocmap t key = Some installed \<longrightarrow> handle \<noteq> None \<longrightarrow>
      addproc t key handle = (installed, t))
   \<and> (request_twice env s i o' k v = Inr ((h1, s1), (h2, s2)) \<longrightarrow>
        h2 = h1
        \<and> (h1 \<noteq> None \<longrightarrow>
             colorprocmap s1 (createColorProcessor_prockey (uhash env) i o' k v) = Some h1
             \<and> colorprocmap s2 = colorprocmap s1
             \<and> engine_compiles s2 = engine_compiles s1))"
proof (intro conjI impI)
  assume "colorprocmap t key = Some installed" "handle \<noteq> None"
  then show "addproc t key handle = (installed, t)"
    by (auto simp: addproc_def)
next
  assume r: "request_twice env s i o' k v = Inr ((h1, s1), (h2, s2))"
  from second_request [OF r] show "h2 = h1" by simp
  assume "h1 \<noteq> None"
  with second_request [OF r]
  show "colorprocmap s1 (createColorProcessor_prockey (uhash env) i o' k v) = Some h1"
    and "colorprocmap s2 = colorprocmap s1" and "engine_compiles s2 = engine_compiles s1"
    by simp_all
qed

theorem C2_installed_processor_wins_witness:
  "request_twice demo_env demo_impl ''srgb_rec709_scene'' ''lin_rec709_scene'' [] [] =
     Inr ((Some demo_processor, demo_installed),
          (Some demo_processor, demo_installed\<lparr>colorprocs_requested := 2\<rparr>))
   \<and> colorprocmap demo_installed demo_key = Some (Some demo_processor)
   \<and> Some demo_later_processor \<noteq> None
   \<and> addproc demo_installed demo_key (Some demo_later_processor)
       = (Some demo_processor, demo_installed)
   \<and> colorprocmap (demo_installed\<lparr>colorprocs_requested := 2\<rparr>) = colorprocmap demo_installed
   \<and> engine_compiles (demo_installed\<lparr>colorprocs_requested := 2\<rparr>)
       = engine_compiles demo_installed"
proof -
  have run: "request_twice demo_env demo_impl ''srgb_rec709_scene'' ''lin_rec709_scene'' [] []
             = Inr ((Some demo_processor, demo_installed),
                    (Some demo_processor, demo_installed\<lparr>colorprocs_requested := 2\<rparr>))"
    by (simp add: request_twice_def createColorProcessor_def findproc_def
        try_getProcessor_def addproc_def error_def clear_error_def Let_def demo_impl_def
        new_Impl_def demo_installed_def demo_processor_def demo_key_def
        new_ColorProcessor_OCIO_def engine_request_def interop_getColorSpace_def
        demo_config_def demo_interop_def demo_env_def make_context_def)
  have inst: "colorprocmap demo_installed demo_key = Some (Some demo_processor)"
    by (simp add: demo_installed_def)
  have ne: "Some demo_later_processor \<noteq> None" by simp
  have ne1: "Some demo_processor \<noteq> None" by simp
  note C2 = C2_installed_processor_wins
              [where t = demo_installed and key = demo_key
                 and installed = "Some demo_processor"
                 and handle = "Some demo_later_processor"
                 and env = demo_env and s = demo_impl
                 and i = "''srgb_rec709_scene''" and o' = "''lin_rec709_scene''"
                 and k = "[]" and v = "[]"
                 and ?h1.0 = "Some demo_processor" and ?s1.0 = demo_installed
                 and ?h2.0 = "Some demo_processor"
                 and ?s2.0 = "demo_installed\<lparr>colorprocs_requested := 2\<rparr>"]
  from C2 run inst ne ne1 show ?thesis by blast
qed

subsection \<open>The fallback inventory\<close>

lemmas flag_defs = is_linear_response_def is_scene_linear_def is_srgb_def is_lin_srgb_def
  is_ACEScg_def is_Rec709_def is_known_def linflags_def

lemma classify_by_name_keeps:
  "classify_by_name env s cs = (cs', s') \<Longrightarrow>
     config s' = config s \<and> colorspaces s' = colorspaces s"
  by (auto simp: classify_by_name_def Let_def split: if_splits prod.splits)

lemma classify_each_keeps:
  "classify_each env s l = (l', s') \<Longrightarrow>
     config s' = config s \<and> colorspaces s' = colorspaces s \<and> length l' = length l"
proof (induction l arbitrary: s l' s')
  case Nil
  then show ?case by simp
next
  case (Cons cs rest)
  obtain cs1 s1 where a: "classify_by_name env s cs = (cs1, s1)"
    by (cases "classify_by_name env s cs")
  obtain r2 s2 where b: "classify_each env s1 rest = (r2, s2)"
    by (cases "classify_each env s1 rest")
  from Cons.prems a b have "l' = cs1 # r2" "s' = s2" by simp_all
  with Cons.IH [OF b] classify_by_name_keeps [OF a] show ?case by simp
qed

lemma classify_all_keeps:
  "config (classify_all env s) = config s
   \<and> length (colorspaces (classify_all env s)) = length (colorspaces s)"
proof -
  obtain l' s' where a: "classify_each env s (colorspaces s) = (l', s')"
    by (cases "classify_each env s (colorspaces s)")
  with classify_each_keeps [OF a] show ?thesis by (simp add: classify_all_def)
qed

lemma inventory_fallback_count:
  "config (inventory_fallback env s) = None
   \<and> length (colorspaces (inventory_fallback env s)) = length (colorspaces s) + 11"
  by (simp add: inventory_fallback_def Let_def classify_all_keeps add_def)

lemma identify_without_config:
  "config s = None \<Longrightarrow> identify_builtin_equivalents env s = s"
  by (simp add: identify_builtin_equivalents_def Impl_IdentifyBuiltinColorSpace_def Let_def)

lemma demo_inventory:
  "inventory demo_disabled_env
     (loaded_Impl (Some demo_config) None (Some demo_interop) False []) = Inr demo_fallback"
  by (simp add: inventory_def demo_fallback_def loaded_Impl_def new_Impl_def
      demo_disabled_env_def)

text \<open>
  C5, as amended. When no configuration was loaded, or the external engine is disabled,
  the constructor registers the fallback inventory, drops the engine's document, and
  \<^verbatim>\<open>getNumColorSpaces()\<close> returns exactly 11: the eleven names that \<^verbatim>\<open>inventory\<close>
  adds.
\<close>

theorem C5_fallback_inventory_has_eleven:
  assumes "loaded_config = None \<or> disable_ocio env"
  shows "init env loaded_config loaded_builtin loaded_interop built_in load_error =
           Inr (loaded_config \<noteq> None,
                inventory_fallback env
                  (loaded_Impl loaded_config loaded_builtin loaded_interop built_in load_error))
         \<and> getNumColorSpaces
             (inventory_fallback env
                (loaded_Impl loaded_config loaded_builtin loaded_interop built_in load_error))
           = 11"
proof -
  let ?s = "loaded_Impl loaded_config loaded_builtin loaded_interop built_in load_error"
  have c: "config ?s = loaded_config" and e: "colorspaces ?s = []"
    by (simp_all add: loaded_Impl_def new_Impl_def)
  from assms c have "inventory env ?s = Inr (inventory_fallback env ?s)"
    by (auto simp: inventory_def split: option.splits)
  moreover have "identify_builtin_equivalents env (inventory_fallback env ?s)
                 = inventory_fallback env ?s"
    by (rule identify_without_config) (simp add: inventory_fallback_count)
  ultimately show ?thesis
    using inventory_fallback_count [of env ?s] c e
    by (simp add: init_def Let_def getNumColorSpaces_def)
qed

theorem C5_fallback_inventory_has_eleven_witness:
  "disable_ocio demo_disabled_env
   \<and> init demo_disabled_env (Some demo_config) None (Some demo_interop) False [] =
       Inr (True, demo_fallback)
   \<and> getNumColorSpaces demo_fallback = 11"
  using C5_fallback_inventory_has_eleven
          [of "Some demo_config" demo_disabled_env None "Some demo_interop" False "[]"]
  by (simp add: demo_disabled_env_def demo_fallback_def)

text \<open>C5 as stated fails: with the engine disabled the count is not 10.\<close>

theorem C5_ten_color_spaces_counterexample:
  "init demo_disabled_env (Some demo_config) None (Some demo_interop) False [] =
     Inr (True, demo_fallback)
   \<and> getNumColorSpaces demo_fallback \<noteq> 10"
proof -
  have n: "length (colorspaces demo_fallback) = 11" and c: "config demo_fallback = None"
    using inventory_fallback_count
            [of demo_disabled_env
               "loaded_Impl (Some demo_config) None (Some demo_interop) False []"]
    by (simp_all add: demo_fallback_def loaded_Impl_def new_Impl_def)
  from demo_inventory n identify_without_config [OF c, of demo_disabled_env] show ?thesis
    by (simp add: init_def Let_def getNumColorSpaces_def loaded_Impl_def new_Impl_def)
qed

subsection \<open>Name resolution and equivalence\<close>

text \<open>
  C3. The claim is that \<^verbatim>\<open>resolve\<close> completes and returns a non-empty string in every
  state, the fallback state included. In the state that the constructor builds when
  the engine is disabled, \<^verbatim>\<open>config_\<close> is null, and \<^verbatim>\<open>resolve("linear")\<close> dereferences
  it in its first statement.
\<close>

theorem C3_resolve_without_config_fails:
  "init demo_disabled_env (Some demo_config) None (Some demo_interop) False [] =
     Inr (True, demo_fallback)
   \<and> config demo_fallback = None
   \<and> resolve demo_disabled_env demo_fallback ''linear'' = Inl NullPointerDereference"
proof -
  have c: "config demo_fallback = None"
    using inventory_fallback_count
            [of demo_disabled_env
               "loaded_Impl (Some demo_config) None (Some demo_interop) False []"]
    by (simp add: demo_fallback_def)
  from demo_inventory c identify_without_config [OF c, of demo_disabled_env] show ?thesis
    by (simp add: init_def Let_def resolve_def loaded_Impl_def new_Impl_def)
qed

lemma iequals_Cons [simp]:
  "iequals (a # as) (b # bs) = (to_lower_char a = to_lower_char b \<and> iequals as bs)"
  "iequals [] (b # bs) = False" "iequals (a # as) [] = False" "iequals [] [] = True"
  by (simp_all add: iequals_def)

lemma iequals_refl [simp]: "iequals a a"
  by (simp add: iequals_def)

lemma spi_classify_plate:
  "classify_by_name demo_spi_env s (mk_CSInfo ''plate_lin'' 0 0)
   = (mk_CSInfo ''plate_lin'' 0 0, s)"
  by (simp add: classify_by_name_def mk_CSInfo_def set_canonical_def starts_with_def
      to_lower_char_def flag_defs)

lemma spi_classify_srgblnf:
  "lin_srgb_alias s = [] \<Longrightarrow>
   classify_by_name demo_spi_env s (mk_CSInfo ''srgblnf'' 1 0)
   = (demo_srgblnf, s\<lparr>lin_srgb_alias := ''srgblnf''\<rparr>)"
  by (simp add: classify_by_name_def mk_CSInfo_def set_canonical_def starts_with_def
      to_lower_char_def flag_defs setflag_alias_def demo_srgblnf_def demo_spi_env_def)

lemma spi_inventory:
  "inventory demo_spi_env (loaded_Impl (Some demo_spi_config) None (Some demo_interop) False [])
   = Inr ((loaded_Impl (Some demo_spi_config) None (Some demo_interop) False [])
       \<lparr>colorspaces := [mk_CSInfo ''plate_lin'' 0 0, demo_srgblnf],
        lin_srgb_alias := ''srgblnf''\<rparr>)"
proof -
  have e: "\<not> disable_ocio demo_spi_env" by (simp add: demo_spi_env_def demo_env_def)
  have n: "any_nonraw demo_spi_config (getColorSpaceNameByIndex demo_spi_config) False = Inr True"
    by (simp add: demo_spi_config_def demo_space_def)
  have l: "getColorSpace demo_spi_config ''scene_linear'' = None"
    by (simp add: demo_spi_config_def)
  have a: "add_each (loaded_Impl (Some demo_spi_config) None (Some demo_interop) False [])
             (getColorSpaceNameByIndex demo_spi_config) 0
           = (loaded_Impl (Some demo_spi_config) None (Some demo_interop) False [])
               \<lparr>colorspaces := [mk_CSInfo ''plate_lin'' 0 0, mk_CSInfo ''srgblnf'' 1 0]\<rparr>"
    by (simp add: demo_spi_config_def add_def loaded_Impl_def new_Impl_def)
  have c: "classify_all demo_spi_env
             ((loaded_Impl (Some demo_spi_config) None (Some demo_interop) False [])
               \<lparr>colorspaces := [mk_CSInfo ''plate_lin'' 0 0, mk_CSInfo ''srgblnf'' 1 0]\<rparr>)
           = (loaded_Impl (Some demo_spi_config) None (Some demo_interop) False [])
               \<lparr>colorspaces := [mk_CSInfo ''plate_lin'' 0 0, demo_srgblnf],
                lin_srgb_alias := ''srgblnf''\<rparr>"
    by (simp add: classify_all_def spi_classify_plate spi_classify_srgblnf loaded_Impl_def
        new_Impl_def)
  have cfg: "config (loaded_Impl (Some demo_spi_config) None (Some demo_interop) False [])
             = Some demo_spi_config"
    by (simp add: loaded_Impl_def new_Impl_def)
  show ?thesis
    unfolding inventory_def by (simp add: cfg e n l a c Let_def)
qed

lemma spi_init:
  "init demo_spi_env (Some demo_spi_config) None (Some demo_interop) False []
   = Inr (True, demo_spi_impl)"
proof -
  have i: "identify_builtin_equivalents demo_spi_env
             ((loaded_Impl (Some demo_spi_config) None (Some demo_interop) False [])
                \<lparr>colorspaces := [mk_CSInfo ''plate_lin'' 0 0, demo_srgblnf],
                 lin_srgb_alias := ''srgblnf''\<rparr>) = demo_spi_impl"
    by (simp add: identify_builtin_equivalents_def Impl_IdentifyBuiltinColorSpace_def
        demo_spi_env_def demo_env_def loaded_Impl_def new_Impl_def demo_spi_impl_def
        demo_plate_lin_def demo_srgblnf_def mk_CSInfo_def setflag_alias_def flag_defs Let_def)
  have cfg: "config (loaded_Impl (Some demo_spi_config) None (Some demo_interop) False [])
             \<noteq> None"
    by (simp add: loaded_Impl_def new_Impl_def)
  show ?thesis
    unfolding init_def Let_def spi_inventory using i cfg by simp
qed

lemma spi_equiv:
  "equivalent demo_spi_env demo_spi_impl ''plate_lin'' ''srgblnf'' = Inr False"
proof -
  have r: "resolve demo_spi_env demo_spi_impl ''plate_lin'' = Inr ''plate_lin''"
          "resolve demo_spi_env demo_spi_impl ''srgblnf'' = Inr ''srgblnf''"
    by (simp_all add: resolve_def demo_spi_impl_def loaded_Impl_def new_Impl_def
        demo_spi_config_def demo_space_def)
  have f: "find_cs demo_spi_impl ''plate_lin'' = Some demo_plate_lin"
          "find_cs demo_spi_impl ''srgblnf'' = Some demo_srgblnf"
    by (simp_all add: find_cs_def demo_spi_impl_def demo_plate_lin_def demo_srgblnf_def)
  have m: "m_flags demo_plate_lin = 9" "m_flags demo_srgblnf = 8"
          "canonical demo_plate_lin = []"
    by (simp_all add: demo_plate_lin_def demo_srgblnf_def)
  have ne: "\<not> iequals ''plate_lin'' ''srgblnf''" by (simp add: to_lower_char_def)
  show ?thesis using r f m ne by (simp add: equivalent_def Let_def flag_defs)
qed

lemma registry_equiv:
  "find_cs demo_registry ''camA'' = Some demo_camA
   \<and> find_cs demo_registry ''camB'' = Some demo_camB
   \<and> m_flags demo_camA AND is_known = 4
   \<and> m_flags demo_camB AND is_known = 4
   \<and> equivalent demo_env demo_registry ''camA'' ''camB'' = Inr False"
proof -
  have f: "find_cs demo_registry ''camA'' = Some demo_camA"
          "find_cs demo_registry ''camB'' = Some demo_camB"
    by (simp_all add: find_cs_def demo_registry_def add_def demo_impl_def new_Impl_def
        mk_CSInfo_def demo_camA_def demo_camB_def)
  have m: "m_flags demo_camA AND is_known = 4" "m_flags demo_camB AND is_known = 4"
          "m_flags demo_camA = 4" "m_flags demo_camB = 5"
          "canonical demo_camA = []" "canonical demo_camB = []"
    by (simp_all add: demo_camA_def demo_camB_def mk_CSInfo_def flag_defs)
  have r: "resolve demo_env demo_registry ''camA'' = Inr ''camA''"
          "resolve demo_env demo_registry ''camB'' = Inr ''camB''"
    by (simp_all add: resolve_def resolve_informal_def demo_registry_def add_def demo_impl_def
        new_Impl_def demo_config_def demo_interop_def to_lower_char_def)
  have ne: "\<not> iequals ''camA'' ''camB''" by (simp add: to_lower_char_def)
  show ?thesis using f m r ne
    by (simp add: equivalent_def Let_def flag_defs)
qed

text \<open>
  C6. The claim is that equal and nonzero masked flags suffice for \<^verbatim>\<open>equivalent\<close>,
  whatever other bits the entries carry. The source computes the masked flags and
  then compares the unmasked ones. In a build with \<^verbatim>\<open>OIIO_SITE_spi\<close> the constructor
  flags \<^verbatim>\<open>srgblnf\<close> as linear sRGB by its name (flags 8) and \<^verbatim>\<open>plate_lin\<close> as linear
  sRGB by the engine's identification (flags 9, no canonical name): the masked flags
  are both 8 and the two are not equivalent. The same holds in any build for two
  entries added as sRGB, one of them also flagged linear-response.
\<close>

theorem C6_equal_masked_flags_not_equivalent:
  "init demo_spi_env (Some demo_spi_config) None (Some demo_interop) False []
     = Inr (True, demo_spi_impl)
   \<and> find_cs demo_spi_impl ''plate_lin'' = Some demo_plate_lin
   \<and> find_cs demo_spi_impl ''srgblnf'' = Some demo_srgblnf
   \<and> m_flags demo_plate_lin AND is_known = 8
   \<and> m_flags demo_srgblnf AND is_known = 8
   \<and> equivalent demo_spi_env demo_spi_impl ''plate_lin'' ''srgblnf'' = Inr False
   \<and> find_cs demo_registry ''camA'' = Some demo_camA
   \<and> find_cs demo_registry ''camB'' = Some demo_camB
   \<and> m_flags demo_camA AND is_known = 4
   \<and> m_flags demo_camB AND is_known = 4
   \<and> equivalent demo_env demo_registry ''camA'' ''camB'' = Inr False"
proof -
  have f: "find_cs demo_spi_impl ''plate_lin'' = Some demo_plate_lin"
          "find_cs demo_spi_impl ''srgblnf'' = Some demo_srgblnf"
    by (simp_all add: find_cs_def demo_spi_impl_def demo_plate_lin_def demo_srgblnf_def)
  have m: "m_flags demo_plate_lin AND is_known = 8" "m_flags demo_srgblnf AND is_known = 8"
    by (simp_all add: demo_plate_lin_def demo_srgblnf_def flag_defs)
  from spi_init spi_equiv registry_equiv f m show ?thesis by simp
qed

subsection \<open>Interop ids and CICP\<close>






subsection \<open>The unpremultiply and premultiply loops\<close>

lemma unpremult_pass_Suc:
  "unpremult_pass (Suc n) st = unpremult_step n (unpremult_pass n st)"
  by (simp add: unpremult_pass_def)

lemma unpremult_pass_at:
  "fst (unpremult_pass n (sl, al)) i =
     (if i < n then (\<lambda>c. sl i c / vfloat4_aaa1 (if sl i 3 \<ge> fltmin then sl i 3 else 1) c)
      else sl i)
   \<and> snd (unpremult_pass n (sl, al)) i = (if i < n then sl i 3 else al i)"
proof (induction n)
  case 0
  then show ?case by (simp add: unpremult_pass_def)
next
  case (Suc n)
  then show ?case
    by (auto simp: unpremult_pass_Suc unpremult_step_def Let_def)
qed

lemma premult_pass_Suc:
  "premult_pass (Suc n) al sl = premult_step al n (premult_pass n al sl)"
  by (simp add: premult_pass_def)

lemma premult_pass_at:
  "premult_pass n al sl i =
     (if i < n then (\<lambda>c. sl i c * vfloat4_aaa1 (if al i \<ge> fltmin then al i else 1) c)
      else sl i)"
proof (induction n)
  case 0
  then show ?case by (simp add: premult_pass_def)
next
  case (Suc n)
  then show ?case
    by (auto simp: premult_pass_Suc premult_step_def Let_def)
qed

lemma unpremult_pass_rgba_Suc:
  "unpremult_pass_rgba (Suc n) st = unpremult_step_rgba n (unpremult_pass_rgba n st)"
  by (simp add: unpremult_pass_rgba_def)

lemma unpremult_pass_rgba_at:
  "fst (unpremult_pass_rgba n (sl, al)) i =
     (if i < n then (\<lambda>c. sl i c / vfloat4_aaa1 (if sl i 3 \<ge> fltmin then sl i 3 else 1) c)
      else sl i)
   \<and> snd (unpremult_pass_rgba n (sl, al)) i = (if i < n then sl i 3 else al i)"
proof (induction n)
  case 0
  then show ?case by (simp add: unpremult_pass_rgba_def)
next
  case (Suc n)
  then show ?case
    by (auto simp: unpremult_pass_rgba_Suc unpremult_step_rgba_def Let_def vfloat4_aaa1_def)
qed

lemma premult_pass_rgba_Suc:
  "premult_pass_rgba (Suc n) al sl = premult_step_rgba al n (premult_pass_rgba n al sl)"
  by (simp add: premult_pass_rgba_def)

lemma premult_pass_rgba_at:
  "premult_pass_rgba n al sl i =
     (if i < n then (\<lambda>c. sl i c * vfloat4_aaa1 (if al i \<ge> fltmin then al i else 1) c)
      else sl i)"
proof (induction n)
  case 0
  then show ?case by (simp add: premult_pass_rgba_def)
next
  case (Suc n)
  then show ?case
    by (auto simp: premult_pass_rgba_Suc premult_step_rgba_def Let_def)
qed

lemma fltmin_pos: "0 < fltmin"
  by (simp add: fltmin_def)

text \<open>
  C7, as amended. For a pixel of the scanline whose alpha is strictly below
  \<open>fltmin\<close>, the smallest positive normal \<^verbatim>\<open>float\<close>, the unpremultiply loop leaves the
  pixel as it is (the divisor is 1) and the matching premultiply loop leaves the
  transformed pixel as it is, whatever transform \<open>T\<close> ran between them, in the generic
  kernel and in the four-channel float kernel. For alpha at or above \<open>fltmin\<close> the
  color channels are divided by alpha.
\<close>

theorem C7_unpremult_guard:
  assumes "i < width"
  shows "(scanline i 3 < fltmin \<longrightarrow>
            fst (unpremult_pass width (scanline, alpha)) i = scanline i
          \<and> premult_pass width (snd (unpremult_pass width (scanline, alpha)))
               (T (fst (unpremult_pass width (scanline, alpha)))) i
             = T (fst (unpremult_pass width (scanline, alpha))) i
          \<and> fst (unpremult_pass_rgba width (scanline, alpha)) i = scanline i
          \<and> premult_pass_rgba width (snd (unpremult_pass_rgba width (scanline, alpha)))
               (T (fst (unpremult_pass_rgba width (scanline, alpha)))) i
             = T (fst (unpremult_pass_rgba width (scanline, alpha))) i)
       \<and> (fltmin \<le> scanline i 3 \<longrightarrow> c < 3 \<longrightarrow>
            fst (unpremult_pass width (scanline, alpha)) i c = scanline i c / scanline i 3
          \<and> fst (unpremult_pass_rgba width (scanline, alpha)) i c
             = scanline i c / scanline i 3)"
  using assms
  by (simp add: unpremult_pass_at premult_pass_at unpremult_pass_rgba_at premult_pass_rgba_at
      vfloat4_aaa1_def)

theorem C7_unpremult_guard_witness:
  "(0::nat) < 1 \<and> demo_low 0 3 < fltmin
   \<and> fst (unpremult_pass 1 (demo_low, demo_alpha)) 0 = demo_low 0
   \<and> premult_pass 1 (snd (unpremult_pass 1 (demo_low, demo_alpha)))
        (demo_T (fst (unpremult_pass 1 (demo_low, demo_alpha)))) 0
      = demo_T (fst (unpremult_pass 1 (demo_low, demo_alpha))) 0
   \<and> fltmin \<le> demo_high 0 3 \<and> (0::nat) < 3
   \<and> fst (unpremult_pass 1 (demo_high, demo_alpha)) 0 0 = 1"
proof -
  have low: "demo_low 0 3 < fltmin" by (simp add: demo_low_def fltmin_def)
  have high: "fltmin \<le> demo_high 0 3" by (simp add: demo_high_def fltmin_def)
  have w: "(0::nat) < 1" by simp
  from C7_unpremult_guard [OF w, of demo_low demo_alpha demo_T 0]
       C7_unpremult_guard [OF w, of demo_high demo_alpha demo_T 0] low high
  show ?thesis by (simp add: demo_high_def)
qed

text \<open>
  C7 as stated fails at the threshold: the guard is \<^verbatim>\<open>a >= fltmin\<close>, so a pixel whose
  alpha is exactly \<open>fltmin\<close> is divided by it, and a color channel holding 1 becomes
  \<open>2 ^ 126\<close>.
\<close>

theorem C7_alpha_at_threshold_counterexample:
  "demo_threshold 0 3 = fltmin \<and> demo_threshold 0 0 = 1
   \<and> fst (unpremult_pass 1 (demo_threshold, demo_alpha)) 0 0 = 2 ^ 126
   \<and> fst (unpremult_pass_rgba 1 (demo_threshold, demo_alpha)) 0 0 = 2 ^ 126"
  by (simp add: unpremult_pass_at unpremult_pass_rgba_at demo_threshold_def vfloat4_aaa1_def
      fltmin_def)

subsection \<open>The leftover channels of the generic kernel\<close>

lemma store_pixel_at:
  "store_pixel n v r c = (if c < n then v c else r c)"
  unfolding store_pixel_def
  by (induction n) auto

lemma leftover_pixel_at:
  "leftover_pixel lo hi a r c = (if lo \<le> c \<and> c < hi then 0.5 + 10 * a c else r c)"
proof (induction hi)
  case 0
  then show ?case by (simp add: leftover_pixel_def)
next
  case (Suc hi)
  show ?case
  proof (cases "lo \<le> hi")
    case True
    then have "leftover_pixel lo (Suc hi) a r
               = (leftover_pixel lo hi a r)(hi := 0.5 + 10 * a hi)"
      by (simp add: leftover_pixel_def)
    with Suc True show ?thesis by auto
  next
    case False
    then show ?thesis by (simp add: leftover_pixel_def)
  qed
qed

lemma store_scanline_at:
  "store_scanline n sl xb j k w R (x, y, z) =
     (if y = j \<and> z = k \<and> xb \<le> x \<and> x < xb + int w
      then store_pixel n (sl (nat (x - xb))) (R (x, y, z)) else R (x, y, z))"
proof (induction w)
  case 0
  then show ?case by (auto simp: store_scanline_def)
next
  case (Suc w)
  have "store_scanline n sl xb j k (Suc w) R
        = (store_scanline n sl xb j k w R)
            ((xb + int w, j, k) :=
               store_pixel n (sl w) (store_scanline n sl xb j k w R (xb + int w, j, k)))"
    by (simp add: store_scanline_def)
  with Suc show ?case by (auto simp: nat_eq_iff)
qed

lemma leftover_scanline_at:
  "leftover_scanline lo hi A xb j k w R (x, y, z) =
     (if y = j \<and> z = k \<and> xb \<le> x \<and> x < xb + int w
      then leftover_pixel lo hi (A (x, y, z)) (R (x, y, z)) else R (x, y, z))"
proof (induction w)
  case 0
  then show ?case by (auto simp: leftover_scanline_def)
next
  case (Suc w)
  have "leftover_scanline lo hi A xb j k (Suc w) R
        = (leftover_scanline lo hi A xb j k w R)
            ((xb + int w, j, k) :=
               leftover_pixel lo hi (A (xb + int w, j, k))
                 (leftover_scanline lo hi A xb j k w R (xb + int w, j, k)))"
    by (simp add: leftover_scanline_def)
  with Suc show ?case by auto
qed

lemma in_row:
  "(xbegin roi \<le> x \<and> x < xbegin roi + int (roi_width roi)) = (xbegin roi \<le> x \<and> x < xend roi)"
  by (auto simp: roi_width_def)

lemma scanline_leftover:
  assumes "R \<noteq> A" "ctc \<le> int c" "int c < chend roi"
  shows "pixels (colorconvert_impl_scanline proc u ctc roi R A k j st R) (x, y, z) c =
           (if y = j \<and> z = k \<and> xbegin roi \<le> x \<and> x < xend roi
            then 0.5 + 10 * pixels (st A) (x, y, z) c else pixels (st R) (x, y, z) c)
         \<and> colorconvert_impl_scanline proc u ctc roi R A k j st A = st A"
proof -
  from assms have "ctc < chend roi" "nat ctc \<le> c" "c < nat (chend roi)" by auto
  with assms(1) show ?thesis
    by (simp add: colorconvert_impl_scanline_def Let_def case_prod_beta
        leftover_scanline_at store_scanline_at leftover_pixel_at store_pixel_at in_row)
qed

lemma scanline_inplace:
  assumes "ctc \<le> int c"
  shows "pixels (colorconvert_impl_scanline proc u ctc roi R R k j st R) p c
         = pixels (st R) p c"
proof -
  from assms have "nat ctc \<le> c" by auto
  then show ?thesis
    by (cases p)
      (simp add: colorconvert_impl_scanline_def Let_def case_prod_beta
        store_scanline_at store_pixel_at)
qed

lemma rows_leftover:
  assumes "R \<noteq> A" "ctc \<le> int c" "int c < chend roi"
  shows "pixels (fold (\<lambda>j st. colorconvert_impl_scanline proc u ctc roi R A k j st) js st R)
           (x, y, z) c =
           (if y \<in> set js \<and> z = k \<and> xbegin roi \<le> x \<and> x < xend roi
            then 0.5 + 10 * pixels (st A) (x, y, z) c else pixels (st R) (x, y, z) c)
         \<and> fold (\<lambda>j st. colorconvert_impl_scanline proc u ctc roi R A k j st) js st A = st A"
proof (induction js arbitrary: st)
  case Nil
  then show ?case by simp
next
  case (Cons j js)
  show ?case
    using Cons.IH [of "colorconvert_impl_scanline proc u ctc roi R A k j st"]
      scanline_leftover [OF assms, of proc u k j st x y z]
    by auto
qed

lemma slices_leftover:
  assumes "R \<noteq> A" "ctc \<le> int c" "int c < chend roi"
  shows "pixels (fold (\<lambda>k st. fold (\<lambda>j st. colorconvert_impl_scanline proc u ctc roi R A k j st)
                                js st) ks st R)
           (x, y, z) c =
           (if z \<in> set ks \<and> y \<in> set js \<and> xbegin roi \<le> x \<and> x < xend roi
            then 0.5 + 10 * pixels (st A) (x, y, z) c else pixels (st R) (x, y, z) c)
         \<and> fold (\<lambda>k st. fold (\<lambda>j st. colorconvert_impl_scanline proc u ctc roi R A k j st)
                          js st) ks st A = st A"
proof (induction ks arbitrary: st)
  case Nil
  then show ?case by simp
next
  case (Cons k ks)
  show ?case
    using Cons.IH [of "fold (\<lambda>j st. colorconvert_impl_scanline proc u ctc roi R A k j st) js st"]
      rows_leftover [OF assms, of proc u k js st x y z]
    by auto
qed

lemma rows_inplace:
  assumes "ctc \<le> int c"
  shows "pixels (fold (\<lambda>j st. colorconvert_impl_scanline proc u ctc roi R R k j st) js st R) p c
         = pixels (st R) p c"
proof (induction js arbitrary: st)
  case Nil
  then show ?case by simp
next
  case (Cons j js)
  show ?case
    using Cons.IH [of "colorconvert_impl_scanline proc u ctc roi R R k j st"]
      scanline_inplace [OF assms, of proc u roi R k j st p]
    by simp
qed

lemma slices_inplace:
  assumes "ctc \<le> int c"
  shows "pixels (fold (\<lambda>k st. fold (\<lambda>j st. colorconvert_impl_scanline proc u ctc roi R R k j st)
                                js st) ks st R) p c
         = pixels (st R) p c"
proof (induction ks arbitrary: st)
  case Nil
  then show ?case by simp
next
  case (Cons k ks)
  show ?case
    using Cons.IH [of "fold (\<lambda>j st. colorconvert_impl_scanline proc u ctc roi R R k j st) js st"]
      rows_inplace [OF assms, of proc u roi R k js st p]
    by simp
qed

text \<open>
  C10. On a region whose channel range is not reversed, a channel \<open>c\<close> beyond the
  processed channels (\<open>min 4 (chend - chbegin)\<close> of them) is left untouched by
  \<^verbatim>\<open>colorconvert_impl\<close> everywhere when the destination is the source. When they
  are distinct buffers and \<open>c\<close> is below \<^verbatim>\<open>roi.chend\<close>, every pixel of the region gets
  \<open>0.5 + 10 * a\<close> in that channel, where \<open>a\<close> is the source's value there: not a copy
  of the source's value.
\<close>

theorem C10_leftover_channels:
  assumes wf: "chbegin roi \<le> chend roi"
    and c: "min 4 (chend roi - chbegin roi) \<le> int c"
  shows "pixels (snd (colorconvert_impl proc st R R unpremult roi) R) p c = pixels (st R) p c
       \<and> (R \<noteq> A \<longrightarrow> int c < chend roi \<longrightarrow>
            xbegin roi \<le> x \<longrightarrow> x < xend roi \<longrightarrow> ybegin roi \<le> y \<longrightarrow> y < yend roi \<longrightarrow>
            zbegin roi \<le> z \<longrightarrow> z < zend roi \<longrightarrow>
            pixels (snd (colorconvert_impl proc st R A unpremult roi) R) (x, y, z) c
            = 0.5 + 10 * pixels (st A) (x, y, z) c)"
proof (intro conjI impI)
  show "pixels (snd (colorconvert_impl proc st R R unpremult roi) R) p c = pixels (st R) p c"
    using slices_inplace [OF c] by (simp add: colorconvert_impl_def Let_def)
next
  assume "R \<noteq> A" "int c < chend roi" "xbegin roi \<le> x" "x < xend roi" "ybegin roi \<le> y"
    "y < yend roi" "zbegin roi \<le> z" "z < zend roi"
  then show "pixels (snd (colorconvert_impl proc st R A unpremult roi) R) (x, y, z) c
             = 0.5 + 10 * pixels (st A) (x, y, z) c"
    using slices_leftover [OF _ c, of R A roi]
    by (simp add: colorconvert_impl_def Let_def)
qed

theorem C10_leftover_channels_witness:
  "chbegin demo_roi \<le> chend demo_roi
   \<and> min 4 (chend demo_roi - chbegin demo_roi) \<le> int 4
   \<and> pixels (snd (colorconvert_impl demo_gain demo_store 0 0 False demo_roi) 0) (0, 0, 0) 4 = 2
   \<and> pixels (snd (colorconvert_impl demo_gain demo_store 1 0 False demo_roi) 1) (0, 0, 0) 4
       = 20.5
   \<and> pixels (demo_store 0) (0, 0, 0) 4 = 2"
proof -
  have wf: "chbegin demo_roi \<le> chend demo_roi" by (simp add: demo_roi_def)
  have h: "min 4 (chend demo_roi - chbegin demo_roi) \<le> int 4" by (simp add: demo_roi_def)
  from C10_leftover_channels [OF wf h, of demo_gain demo_store 0 False "(0, 0, 0)" 0 0 0 0]
       C10_leftover_channels [OF wf h, of demo_gain demo_store 1 False "(0, 0, 0)" 0 0 0 0]
  show ?thesis by (simp add: demo_roi_def demo_store_def demo_buf_def)
qed

subsection \<open>The identity processor\<close>

lemma ImageBufAlgo_copy_at:
  assumes "xbegin roi \<le> x" "x < xend roi" "ybegin roi \<le> y" "y < yend roi"
    "zbegin roi \<le> z" "z < zend roi" "chbegin roi \<le> int c" "int c < chend roi"
  shows "pixels (snd (ImageBufAlgo_copy st dst src roi) dst) (x, y, z) c
         = pixels (st src) (x, y, z) c"
  using assms by (simp add: ImageBufAlgo_copy_def)

text \<open>
  C8, as amended. For a processor that reports itself as the identity, the call with
  the destination being the source does no work, leaves every buffer as it is and
  succeeds. With a distinct destination the region is prepared first: when the
  preparation fails, the call fails and nothing is copied; when it succeeds, the call
  is the plain copy of the prepared region from the source into the destination, every
  channel of every pixel of the region has the source's value afterwards, and the call
  succeeds.
\<close>

theorem C8_noop_short_circuit:
  assumes "isNoOp proc"
  shows "colorconvert IBAprep st b b (Some proc) unpremult roi = (True, st)
       \<and> (dst \<noteq> src \<longrightarrow> IBAprep roi dst src st = (False, roi1, st1) \<longrightarrow>
            colorconvert IBAprep st dst src (Some proc) unpremult roi = (False, st1))
       \<and> (dst \<noteq> src \<longrightarrow> IBAprep roi dst src st = (True, roi1, st1) \<longrightarrow>
            colorconvert IBAprep st dst src (Some proc) unpremult roi
              = ImageBufAlgo_copy st1 dst src roi1
            \<and> fst (colorconvert IBAprep st dst src (Some proc) unpremult roi) = True
            \<and> (xbegin roi1 \<le> x \<and> x < xend roi1 \<and> ybegin roi1 \<le> y \<and> y < yend roi1
                 \<and> zbegin roi1 \<le> z \<and> z < zend roi1
                 \<and> chbegin roi1 \<le> int c \<and> int c < chend roi1 \<longrightarrow>
               pixels (snd (colorconvert IBAprep st dst src (Some proc) unpremult roi) dst)
                 (x, y, z) c
               = pixels (st1 src) (x, y, z) c))"
  using assms
  by (auto simp: colorconvert_def ImageBufAlgo_copy_at) (simp add: ImageBufAlgo_copy_def)


theorem C8_noop_short_circuit_witness:
  "isNoOp demo_noop
   \<and> colorconvert demo_IBAprep_accepts demo_store 0 0 (Some demo_noop) False demo_roi
       = (True, demo_store)
   \<and> (1::nat) \<noteq> 0
   \<and> demo_IBAprep_accepts demo_roi 1 0 demo_store = (True, demo_roi, demo_store)
   \<and> fst (colorconvert demo_IBAprep_accepts demo_store 1 0 (Some demo_noop) False demo_roi)
   \<and> pixels (snd (colorconvert demo_IBAprep_accepts demo_store 1 0 (Some demo_noop) False
                     demo_roi) 1) (0, 0, 0) 4 = 2
   \<and> pixels (demo_store 0) (0, 0, 0) 4 = 2
   \<and> demo_IBAprep_rejects demo_roi 1 0 demo_store = (False, demo_roi, demo_store)
   \<and> colorconvert demo_IBAprep_rejects demo_store 1 0 (Some demo_noop) False demo_roi
       = (False, demo_store)"
proof -
  have n: "isNoOp demo_noop" by (simp add: demo_noop_def)
  have a: "demo_IBAprep_accepts demo_roi 1 0 demo_store = (True, demo_roi, demo_store)"
    by (simp add: demo_IBAprep_accepts_def)
  have r: "demo_IBAprep_rejects demo_roi 1 0 demo_store = (False, demo_roi, demo_store)"
    by (simp add: demo_IBAprep_rejects_def)
  have d: "(1::nat) \<noteq> 0" by simp
  have rng: "xbegin demo_roi \<le> 0 \<and> 0 < xend demo_roi \<and> ybegin demo_roi \<le> 0
             \<and> 0 < yend demo_roi \<and> zbegin demo_roi \<le> 0 \<and> 0 < zend demo_roi
             \<and> chbegin demo_roi \<le> int 4 \<and> int 4 < chend demo_roi"
    by (simp add: demo_roi_def)
  have v: "pixels (demo_store 0) (0, 0, 0) 4 = 2" by (simp add: demo_store_def demo_buf_def)
  note A = C8_noop_short_circuit [OF n, of demo_IBAprep_accepts demo_store 0 False demo_roi
             1 0 demo_roi demo_store 0 0 0 4]
  note B = C8_noop_short_circuit [OF n, of demo_IBAprep_rejects demo_store 0 False demo_roi
             1 0 demo_roi demo_store 0 0 0 4]
  from A have 1: "colorconvert demo_IBAprep_accepts demo_store 0 0 (Some demo_noop) False
                    demo_roi = (True, demo_store)"
    by blast
  from A d a rng have 2:
    "fst (colorconvert demo_IBAprep_accepts demo_store 1 0 (Some demo_noop) False demo_roi)"
    "pixels (snd (colorconvert demo_IBAprep_accepts demo_store 1 0 (Some demo_noop) False
                    demo_roi) 1) (0, 0, 0) 4 = pixels (demo_store 0) (0, 0, 0) 4"
    by blast+
  from B d r have 3:
    "colorconvert demo_IBAprep_rejects demo_store 1 0 (Some demo_noop) False demo_roi
     = (False, demo_store)"
    by blast
  from n 1 2 3 a r v show ?thesis by simp
qed

text \<open>
  C8 as stated fails when the preparation of the region fails: the processor is the
  identity, the buffers are distinct, the call returns failure and the destination is
  not a copy of the source.
\<close>

theorem C8_preparation_fails_counterexample:
  "isNoOp demo_noop \<and> (1::nat) \<noteq> 0
   \<and> colorconvert demo_IBAprep_rejects demo_store 1 0 (Some demo_noop) False demo_roi
       = (False, demo_store)
   \<and> pixels (demo_store 1) (0, 0, 0) 0 \<noteq> pixels (demo_store 0) (0, 0, 0) 0"
  by (simp add: colorconvert_def demo_noop_def demo_IBAprep_rejects_def demo_store_def
      demo_buf_def)


end
